theory Spec2Isabelle
  imports Main "HOL-Library.AList" "HOL-Library.Sublist" "HOL-Library.Multiset"
    "HOL-Library.Char_ord" "HOL-Library.List_Lexorder"
begin

section \<open>The file-backed store of notes and documents (file\_storage.py)\<close>

text \<open>
  The embedding follows class \<open>FileStorage\<close> method by method. What the class reads from
  its environment is made explicit:
  \<^item> the file system is a record of the five directories the class uses, each an association
    list from file name to the bytes of the file; the directories are distinct, as in the
    default layout (\<open>data/notes\<close>, \<open>data/docs\<close>, \<open>uploads\<close>, \<open>uploads/notes\<close>,
    \<open>uploads/docs\<close>);
  \<^item> \<open>metadata.json\<close> is absent, unparseable, or holds an index of the shape
    \<open>_save_metadata\<close> writes;
  \<^item> every call of \<open>datetime.utcnow()\<close> is a parameter of the method that makes it, in the
    order of the calls; a timestamp is a number of microseconds, and
    \<open>isoformat\<close>/\<open>fromisoformat\<close> are inverse to each other on it;
  \<^item> \<open>werkzeug.utils.secure_filename\<close> and the eight hexadecimal digits of
    \<open>uuid.uuid4()\<close> are parameters;
  \<^item> a Python string is the list of the bytes of its UTF-8 encoding, which is what a content
    file holds; \<open>str.lower\<close>, with its table of the cased letters of Unicode, is a
    parameter \<open>lower\<close> of the methods that call it;
  \<^item> the platform is POSIX: \<open>os.linesep\<close> is the line feed, so writing in text mode stores
    the string as it is, while reading in text mode translates the line ends;
  \<^item> \<open>os.remove\<close> raises \<open>OSError\<close> on the paths listed in \<open>remove_fails\<close>; reading and
    writing files succeed.
\<close>

subsection \<open>Data\<close>

type_synonym timestamp = nat
type_synonym user = nat

text \<open>An entry of a record's \<open>attachments\<close> list.\<close>

record attachment =
  att_filename :: string
  original_filename :: string
  uploaded_at :: timestamp

text \<open>
  A dictionary of \<open>metadata['notes']\<close> or \<open>metadata['docs']\<close>. The keys the code reads with
  \<open>.get\<close> may be missing (\<open>None\<close>); the keys it reads with \<open>[...]\<close> are always there.
\<close>

record item_meta =
  item_id :: int
  title :: string
  filename :: string
  category :: "string option"
  user_id :: "user option"
  attachments :: "attachment list option"
  view_count :: "int option"
  created_at :: timestamp
  updated_at :: "timestamp option"
  updated_by :: "user option"

text \<open>The index: the lists under the keys \<open>notes\<close> and \<open>docs\<close>.\<close>

record metadata =
  md_notes :: "item_meta list"
  md_docs :: "item_meta list"

datatype meta_file = Absent | Garbage | Stored metadata

datatype folder = NotesDir | DocsDir | UploadsDir | NotesUploadsDir | DocsUploadsDir

type_synonym directory = "(string \<times> string) list"

record storage =
  metadata_file :: meta_file
  notes_dir :: directory
  docs_dir :: directory
  uploads_dir :: directory
  notes_uploads_dir :: directory
  docs_uploads_dir :: directory
  remove_fails :: "(folder \<times> string) list"

text \<open>Classes \<open>Note\<close> and \<open>Document\<close>.\<close>

record Note =
  n_id :: int
  n_title :: string
  n_content :: string
  n_category :: string
  n_user_id :: "user option"
  n_attachments :: "attachment list"
  n_view_count :: int
  n_created_at :: timestamp
  n_updated_at :: timestamp
  n_updated_by :: "user option"

record Document =
  d_id :: int
  d_title :: string
  d_content :: string
  d_category :: string
  d_user_id :: "user option"
  d_attachments :: "attachment list"
  d_created_at :: timestamp
  d_updated_at :: timestamp

datatype exn = FileNotFoundError | JSONDecodeError | OSError

datatype 'a outcome = Returned 'a | Raised exn

text \<open>
  The second component of what \<open>check_storage_available\<close> and \<open>add_note_attachment\<close>
  return. \<open>NotEnoughStorage used limit\<close> stands for the message that prints the bytes in use
  and the limit, both divided by \<open>1024 * 1024\<close>.
\<close>

datatype message = OK | NotEnoughStorage nat nat | InvalidFilename | UploadDone | NoteNotFound

record uploaded_file =
  upload_filename :: string
  upload_data :: string

subsection \<open>Strings\<close>

text \<open>\<open>str(n)\<close> of an integer, as the f-strings \<open>f"{note_id}.txt"\<close> format it.\<close>

fun str_nat :: "nat \<Rightarrow> string" where
  "str_nat n = (if n < 10 then [''0123456789'' ! n]
                else str_nat (n div 10) @ [''0123456789'' ! (n mod 10)])"

definition str_int :: "int \<Rightarrow> string" where
  "str_int i = (if i < 0 then CHR ''-'' # str_nat (nat (- i)) else str_nat (nat i))"

text \<open>What \<open>open(path, 'r', encoding='utf-8')\<close> does to the bytes it reads (universal
  newlines): a carriage return followed by a line feed, and a carriage return alone, become
  one line feed.\<close>

fun universal_newlines :: "string \<Rightarrow> string" where
  "universal_newlines [] = []"
| "universal_newlines [c] = [if c = CHR 0x0D then CHR 0x0A else c]"
| "universal_newlines (c # d # cs) =
     (if c = CHR 0x0D
      then CHR 0x0A # (if d = CHR 0x0A then universal_newlines cs else universal_newlines (d # cs))
      else c # universal_newlines (d # cs))"

text \<open>\<open>os.path.splitext(p)[1]\<close>: from the last dot of the last path component, unless only
  dots stand before it.\<close>

definition splitext_ext :: "string \<Rightarrow> string" where
  "splitext_ext p =
     (let base = rev (takeWhile (\<lambda>c. c \<noteq> CHR ''/'') (rev p));
          ext = rev (takeWhile (\<lambda>c. c \<noteq> CHR ''.'') (rev base));
          stem = take (length base - length ext - 1) base
      in if CHR ''.'' \<in> set base \<and> filter (\<lambda>c. c \<noteq> CHR ''.'') stem \<noteq> []
         then CHR ''.'' # ext else [])"

subsection \<open>The metadata file\<close>

definition empty_metadata :: metadata where
  "empty_metadata = \<lparr>md_notes = [], md_docs = []\<rparr>"

text \<open>\<open>open(self.metadata_file)\<close> and \<open>json.load\<close>.\<close>

fun read_json :: "meta_file \<Rightarrow> exn + metadata" where
  "read_json Absent = Inl FileNotFoundError"
| "read_json Garbage = Inl JSONDecodeError"
| "read_json (Stored m) = Inr m"

text \<open>\<open>_load_metadata\<close>: the bare \<open>except\<close> turns every failure into the empty index.\<close>

definition load_metadata :: "storage \<Rightarrow> metadata" where
  "load_metadata s = (case read_json (metadata_file s) of Inl e \<Rightarrow> empty_metadata | Inr m \<Rightarrow> m)"

text \<open>\<open>_save_metadata\<close>: the temporary file replaces \<open>metadata.json\<close>.\<close>

definition save_metadata :: "storage \<Rightarrow> metadata \<Rightarrow> storage" where
  "save_metadata s m = s\<lparr>metadata_file := Stored m\<rparr>"

text \<open>\<open>metadata.get(key, [])\<close>.\<close>

definition metadata_get :: "metadata \<Rightarrow> string \<Rightarrow> item_meta list" where
  "metadata_get m key = (if key = ''notes'' then md_notes m else if key = ''docs'' then md_docs m else [])"

text \<open>\<open>max(...)\<close> of a non-empty sequence.\<close>

fun py_max :: "int \<Rightarrow> int list \<Rightarrow> int" where
  "py_max x [] = x"
| "py_max x (y # ys) = py_max (if x < y then y else x) ys"

definition get_next_id :: "storage \<Rightarrow> string \<Rightarrow> int" where
  "get_next_id s item_type =
     (case metadata_get (load_metadata s) (item_type @ ''s'') of
        [] \<Rightarrow> 1
      | x # xs \<Rightarrow> py_max (item_id x) (map item_id xs) + 1)"

subsection \<open>Files\<close>

definition get_dir :: "folder \<Rightarrow> storage \<Rightarrow> directory" where
  "get_dir d s = (case d of NotesDir \<Rightarrow> notes_dir s | DocsDir \<Rightarrow> docs_dir s
     | UploadsDir \<Rightarrow> uploads_dir s | NotesUploadsDir \<Rightarrow> notes_uploads_dir s
     | DocsUploadsDir \<Rightarrow> docs_uploads_dir s)"

definition put_dir :: "folder \<Rightarrow> directory \<Rightarrow> storage \<Rightarrow> storage" where
  "put_dir d fs s = (case d of NotesDir \<Rightarrow> s\<lparr>notes_dir := fs\<rparr> | DocsDir \<Rightarrow> s\<lparr>docs_dir := fs\<rparr>
     | UploadsDir \<Rightarrow> s\<lparr>uploads_dir := fs\<rparr> | NotesUploadsDir \<Rightarrow> s\<lparr>notes_uploads_dir := fs\<rparr>
     | DocsUploadsDir \<Rightarrow> s\<lparr>docs_uploads_dir := fs\<rparr>)"

text \<open>\<open>os.path.exists\<close>, reading a file, \<open>open(path, 'w')\<close> with \<open>write\<close>, and \<open>os.remove\<close>.\<close>

definition path_exists :: "storage \<Rightarrow> folder \<Rightarrow> string \<Rightarrow> bool" where
  "path_exists s d name = (map_of (get_dir d s) name \<noteq> None)"

definition read_file :: "storage \<Rightarrow> folder \<Rightarrow> string \<Rightarrow> string option" where
  "read_file s d name = map_of (get_dir d s) name"

text \<open>\<open>open(path, 'r', encoding='utf-8')\<close> with \<open>read\<close>.\<close>

definition read_text :: "storage \<Rightarrow> folder \<Rightarrow> string \<Rightarrow> string option" where
  "read_text s d name = map_option universal_newlines (read_file s d name)"

definition write_file :: "storage \<Rightarrow> folder \<Rightarrow> string \<Rightarrow> string \<Rightarrow> storage" where
  "write_file s d name bytes = put_dir d (AList.update name bytes (get_dir d s)) s"

definition os_remove :: "storage \<Rightarrow> folder \<Rightarrow> string \<Rightarrow> exn + storage" where
  "os_remove s d name =
     (if map_of (get_dir d s) name = None then Inl FileNotFoundError
      else if (d, name) \<in> set (remove_fails s) then Inl OSError
      else Inr (put_dir d (AList.delete name (get_dir d s)) s))"

text \<open>\<open>if os.path.exists(path): os.remove(path)\<close>.\<close>

definition remove_if_exists :: "storage \<Rightarrow> folder \<Rightarrow> string \<Rightarrow> exn + storage" where
  "remove_if_exists s d name = (if path_exists s d name then os_remove s d name else Inr s)"

subsection \<open>Notes\<close>

text \<open>The reads with a default: \<open>note_meta.get('category', 'general')\<close>,
  \<open>note_meta.get('attachments', [])\<close>, \<open>note_meta.get('view_count', 0)\<close> and
  \<open>note_meta.get('updated_at', note_meta['created_at'])\<close>.\<close>

definition get_category :: "item_meta \<Rightarrow> string" where
  "get_category m = (case category m of None \<Rightarrow> ''general'' | Some c \<Rightarrow> c)"

definition get_attachments :: "item_meta \<Rightarrow> attachment list" where
  "get_attachments m = (case attachments m of None \<Rightarrow> [] | Some a \<Rightarrow> a)"

definition get_view_count :: "item_meta \<Rightarrow> int" where
  "get_view_count m = (case view_count m of None \<Rightarrow> 0 | Some v \<Rightarrow> v)"

definition get_updated_at :: "item_meta \<Rightarrow> timestamp" where
  "get_updated_at m = (case updated_at m of None \<Rightarrow> created_at m | Some t \<Rightarrow> t)"

text \<open>The constructor call \<open>Note(id=note_meta['id'], ..., content=content, ...)\<close> of
  \<open>get_note\<close> and \<open>get_all_notes\<close>, with the defaults of the \<open>.get\<close> calls.\<close>

definition make_note :: "item_meta \<Rightarrow> string \<Rightarrow> Note" where
  "make_note m content =
     \<lparr>n_id = item_id m, n_title = title m, n_content = content,
      n_category = get_category m,
      n_user_id = user_id m,
      n_attachments = get_attachments m,
      n_view_count = get_view_count m,
      n_created_at = created_at m,
      n_updated_at = get_updated_at m,
      n_updated_by = updated_by m\<rparr>"

text \<open>The loop of \<open>get_note\<close>: a record with the id whose content file is missing is passed
  over, and the loop goes on.\<close>

fun get_note_loop :: "storage \<Rightarrow> int \<Rightarrow> item_meta list \<Rightarrow> Note option" where
  "get_note_loop s note_id [] = None"
| "get_note_loop s note_id (m # ms) =
     (if item_id m = note_id then
        (case read_text s NotesDir (filename m) of
           Some content \<Rightarrow> Some (make_note m content)
         | None \<Rightarrow> get_note_loop s note_id ms)
      else get_note_loop s note_id ms)"

definition get_note :: "storage \<Rightarrow> int \<Rightarrow> Note option" where
  "get_note s note_id = get_note_loop s note_id (md_notes (load_metadata s))"

text \<open>\<open>create_note\<close>; \<open>now1\<close> and \<open>now2\<close> are the readings of the clock for \<open>created_at\<close>
  and for \<open>updated_at\<close>.\<close>

definition create_note ::
  "storage \<Rightarrow> string \<Rightarrow> string \<Rightarrow> string \<Rightarrow> user option \<Rightarrow> timestamp \<Rightarrow> timestamp
     \<Rightarrow> Note option \<times> storage" where
  "create_note s ttl content cat uid now1 now2 =
     (let note_id = get_next_id s ''note'';
          fname = str_int note_id @ ''.txt'';
          s1 = write_file s NotesDir fname content;
          metadata = load_metadata s1;
          note_meta = \<lparr>item_id = note_id, title = ttl, filename = fname, category = Some cat,
                       user_id = uid, attachments = Some [], view_count = Some 0,
                       created_at = now1, updated_at = Some now2, updated_by = None\<rparr>;
          s2 = save_metadata s1 (metadata\<lparr>md_notes := md_notes metadata @ [note_meta]\<rparr>)
      in (get_note s2 note_id, s2))"

text \<open>The two filters of \<open>get_all_notes\<close> and \<open>get_all_docs\<close>: an absent or empty argument
  is falsy and filters nothing.\<close>

definition category_skips :: "string option \<Rightarrow> item_meta \<Rightarrow> bool" where
  "category_skips cat m =
     (case cat of None \<Rightarrow> False
      | Some c \<Rightarrow> c \<noteq> [] \<and> c \<noteq> ''all'' \<and> category m \<noteq> Some c)"

definition search_skips ::
  "(string \<Rightarrow> string) \<Rightarrow> string option \<Rightarrow> item_meta \<Rightarrow> string \<Rightarrow> bool" where
  "search_skips lower search_query m content =
     (case search_query of None \<Rightarrow> False
      | Some q \<Rightarrow> q \<noteq> [] \<and> \<not> sublist (lower q) (lower (title m))
                 \<and> \<not> sublist (lower q) (lower content))"

fun get_all_notes_loop ::
  "storage \<Rightarrow> (string \<Rightarrow> string) \<Rightarrow> string option \<Rightarrow> string option \<Rightarrow> item_meta list
     \<Rightarrow> Note list" where
  "get_all_notes_loop s lower cat q [] = []"
| "get_all_notes_loop s lower cat q (m # ms) =
     (if category_skips cat m then get_all_notes_loop s lower cat q ms
      else case read_text s NotesDir (filename m) of
             None \<Rightarrow> get_all_notes_loop s lower cat q ms
           | Some content \<Rightarrow>
               if search_skips lower q m content then get_all_notes_loop s lower cat q ms
               else make_note m content # get_all_notes_loop s lower cat q ms)"

text \<open>\<open>list.sort(key=..., reverse=True)\<close>: the list is reversed, sorted stably in
  ascending order and reversed again, as CPython does it.\<close>

definition sort_reverse :: "('a \<Rightarrow> 'k::linorder) \<Rightarrow> 'a list \<Rightarrow> 'a list" where
  "sort_reverse key xs = rev (sort_key key (rev xs))"

definition get_all_notes ::
  "storage \<Rightarrow> (string \<Rightarrow> string) \<Rightarrow> string option \<Rightarrow> string option \<Rightarrow> Note list" where
  "get_all_notes s lower cat q =
     sort_reverse n_updated_at
       (get_all_notes_loop s lower cat q (md_notes (load_metadata s)))"

text \<open>The loops that act on the first record with the id and then return or break:
  the records before it, the record, the records after it.\<close>

fun find_item :: "int \<Rightarrow> item_meta list \<Rightarrow> (item_meta list \<times> item_meta \<times> item_meta list) option" where
  "find_item i [] = None"
| "find_item i (m # ms) =
     (if item_id m = i then Some ([], m, ms)
      else case find_item i ms of
             None \<Rightarrow> None
           | Some (pre, x, post) \<Rightarrow> Some (m # pre, x, post))"

definition increment_note_view_count :: "storage \<Rightarrow> int \<Rightarrow> bool \<times> storage" where
  "increment_note_view_count s note_id =
     (let metadata = load_metadata s in
      case find_item note_id (md_notes metadata) of
        None \<Rightarrow> (False, s)
      | Some (pre, m, post) \<Rightarrow>
          let m' = m\<lparr>view_count := Some (get_view_count m + 1)\<rparr>
          in (True, save_metadata s (metadata\<lparr>md_notes := pre @ m' # post\<rparr>)))"

text \<open>\<open>update_note\<close>; \<open>None\<close> is an argument left at its default.\<close>

definition update_note ::
  "storage \<Rightarrow> int \<Rightarrow> string option \<Rightarrow> string option \<Rightarrow> string option \<Rightarrow> user option
     \<Rightarrow> timestamp \<Rightarrow> bool \<times> storage" where
  "update_note s note_id ttl content cat uid now =
     (let metadata = load_metadata s in
      case find_item note_id (md_notes metadata) of
        None \<Rightarrow> (False, s)
      | Some (pre, m, post) \<Rightarrow>
          let m1 = (case ttl of None \<Rightarrow> m | Some t \<Rightarrow> m\<lparr>title := t\<rparr>);
              m2 = (case cat of None \<Rightarrow> m1 | Some c \<Rightarrow> m1\<lparr>category := Some c\<rparr>);
              s1 = (case content of None \<Rightarrow> s | Some c \<Rightarrow> write_file s NotesDir (filename m2) c);
              updated = (ttl \<noteq> None \<or> cat \<noteq> None \<or> content \<noteq> None)
          in if updated then
               let m3 = m2\<lparr>updated_at := Some now\<rparr>;
                   m4 = (case uid of None \<Rightarrow> m3 | Some u \<Rightarrow> m3\<lparr>updated_by := Some u\<rparr>)
               in (True, save_metadata s1 (metadata\<lparr>md_notes := pre @ m4 # post\<rparr>))
             else (False, s1))"

text \<open>The loop over the attachments of a record that \<open>delete_note\<close> and \<open>delete_doc\<close>
  remove: the first \<open>os.remove\<close> that raises ends it.\<close>

fun remove_attachments :: "storage \<Rightarrow> folder \<Rightarrow> attachment list \<Rightarrow> exn option \<times> storage" where
  "remove_attachments s d [] = (None, s)"
| "remove_attachments s d (a # as) =
     (case remove_if_exists s d (att_filename a) of
        Inl e \<Rightarrow> (Some e, s)
      | Inr s1 \<Rightarrow> remove_attachments s1 d as)"

text \<open>\<open>delete_note\<close>. An exception leaves the files removed so far removed and the index as
  it was.\<close>

definition delete_note :: "storage \<Rightarrow> int \<Rightarrow> bool outcome \<times> storage" where
  "delete_note s note_id =
     (let metadata = load_metadata s in
      case find_item note_id (md_notes metadata) of
        None \<Rightarrow> (Returned False, s)
      | Some (pre, m, post) \<Rightarrow>
          (case remove_if_exists s NotesDir (filename m) of
             Inl e \<Rightarrow> (Raised e, s)
           | Inr s1 \<Rightarrow>
               (case remove_attachments s1 NotesUploadsDir
                       (get_attachments m) of
                  (Some e, s2) \<Rightarrow> (Raised e, s2)
                | (None, s2) \<Rightarrow>
                    (Returned True,
                     save_metadata s2 (metadata\<lparr>md_notes := remove1 m (md_notes metadata)\<rparr>)))))"

subsection \<open>The storage quota and the attachments of notes\<close>

definition dir_size :: "directory \<Rightarrow> nat" where
  "dir_size fs = sum_list (map (\<lambda>(name, bytes). length bytes) fs)"

text \<open>\<open>get_total_storage_size\<close>: the walk of the uploads directory visits its two
  subdirectories as well.\<close>

definition get_total_storage_size :: "storage \<Rightarrow> nat" where
  "get_total_storage_size s =
     (dir_size (uploads_dir s) + dir_size (notes_uploads_dir s) + dir_size (docs_uploads_dir s))
     + dir_size (notes_dir s) + dir_size (docs_dir s)"

definition check_storage_available :: "storage \<Rightarrow> nat \<Rightarrow> nat \<Rightarrow> bool \<times> message" where
  "check_storage_available s file_size max_storage =
     (let current_size = get_total_storage_size s in
      if current_size + file_size > max_storage
      then (False, NotEnoughStorage current_size max_storage)
      else (True, OK))"

text \<open>The default of \<open>max_storage\<close>.\<close>

definition max_storage_default :: nat where
  "max_storage_default = 2 * 1024 * 1024 * 1024"

text \<open>The attachment's dictionary is appended to the record's list, which is created when
  the key is missing.\<close>

definition append_attachment :: "item_meta \<Rightarrow> attachment \<Rightarrow> item_meta" where
  "append_attachment m a =
     m\<lparr>attachments := Some (get_attachments m @ [a])\<rparr>"

text \<open>\<open>add_note_attachment\<close>; \<open>now1\<close> is the reading of the clock for \<open>uploaded_at\<close>,
  \<open>now2\<close> the one for \<open>updated_at\<close>.\<close>

definition add_note_attachment ::
  "storage \<Rightarrow> int \<Rightarrow> uploaded_file \<Rightarrow> (string \<Rightarrow> string) \<Rightarrow> string \<Rightarrow> timestamp \<Rightarrow> timestamp
     \<Rightarrow> (bool \<times> message) \<times> storage" where
  "add_note_attachment s note_id file secure_filename hex8 now1 now2 =
     (let file_size = length (upload_data file);
          (can_upload, msg) = check_storage_available s file_size max_storage_default
      in if \<not> can_upload then ((False, msg), s)
         else
           let metadata = load_metadata s in
           case find_item note_id (md_notes metadata) of
             None \<Rightarrow> ((False, NoteNotFound), s)
           | Some (pre, m, post) \<Rightarrow>
               let original = secure_filename (upload_filename file) in
               if original = [] then ((False, InvalidFilename), s)
               else
                 let file_ext = splitext_ext original;
                     unique_filename = str_int note_id @ ''_'' @ hex8 @ file_ext;
                     s1 = write_file s NotesUploadsDir unique_filename (upload_data file);
                     m1 = append_attachment m
                            \<lparr>att_filename = unique_filename, original_filename = original,
                             uploaded_at = now1\<rparr>;
                     m2 = m1\<lparr>updated_at := Some now2\<rparr>
                 in ((True, UploadDone),
                     save_metadata s1 (metadata\<lparr>md_notes := pre @ m2 # post\<rparr>)))"

text \<open>The two nested loops of \<open>delete_note_attachment\<close> and \<open>delete_doc_attachment\<close>: the
  first record with the id that has an attachment of the file name loses the first such
  attachment and gets the new \<open>updated_at\<close>; a record with the id and no such attachment
  is passed over.\<close>

fun drop_attachment :: "int \<Rightarrow> string \<Rightarrow> timestamp \<Rightarrow> item_meta list \<Rightarrow> item_meta list option" where
  "drop_attachment i name now [] = None"
| "drop_attachment i name now (m # ms) =
     (if item_id m = i then
        (case find (\<lambda>a. att_filename a = name) (get_attachments m) of
           Some a \<Rightarrow>
             Some (m\<lparr>attachments := Some (remove1 a (get_attachments m)),
                     updated_at := Some now\<rparr> # ms)
         | None \<Rightarrow> map_option ((#) m) (drop_attachment i name now ms))
      else map_option ((#) m) (drop_attachment i name now ms))"

text \<open>\<open>delete_note_attachment\<close>: the \<open>try\<close> around \<open>os.remove\<close> swallows its exception.\<close>

definition delete_note_attachment ::
  "storage \<Rightarrow> int \<Rightarrow> string \<Rightarrow> timestamp \<Rightarrow> bool outcome \<times> storage" where
  "delete_note_attachment s note_id attachment_filename now =
     (let metadata = load_metadata s in
      case drop_attachment note_id attachment_filename now (md_notes metadata) of
        None \<Rightarrow> (Returned False, s)
      | Some ns \<Rightarrow>
          let s1 = (case remove_if_exists s NotesUploadsDir attachment_filename of
                      Inl e \<Rightarrow> s
                    | Inr s' \<Rightarrow> s')
          in (Returned True, save_metadata s1 (metadata\<lparr>md_notes := ns\<rparr>)))"

definition get_note_categories :: "storage \<Rightarrow> string list" where
  "get_note_categories s =
     sort (remdups (map get_category
                        (md_notes (load_metadata s))))"

subsection \<open>Documents\<close>

definition make_doc :: "item_meta \<Rightarrow> string \<Rightarrow> Document" where
  "make_doc m content =
     \<lparr>d_id = item_id m, d_title = title m, d_content = content,
      d_category = get_category m,
      d_user_id = user_id m,
      d_attachments = get_attachments m,
      d_created_at = created_at m,
      d_updated_at = get_updated_at m\<rparr>"

fun get_doc_loop :: "storage \<Rightarrow> int \<Rightarrow> item_meta list \<Rightarrow> Document option" where
  "get_doc_loop s doc_id [] = None"
| "get_doc_loop s doc_id (m # ms) =
     (if item_id m = doc_id then
        (case read_text s DocsDir (filename m) of
           Some content \<Rightarrow> Some (make_doc m content)
         | None \<Rightarrow> get_doc_loop s doc_id ms)
      else get_doc_loop s doc_id ms)"

definition get_doc :: "storage \<Rightarrow> int \<Rightarrow> Document option" where
  "get_doc s doc_id = get_doc_loop s doc_id (md_docs (load_metadata s))"

text \<open>\<open>create_doc\<close>: the record of a document has neither \<open>view_count\<close> nor
  \<open>updated_by\<close>.\<close>

definition create_doc ::
  "storage \<Rightarrow> string \<Rightarrow> string \<Rightarrow> string \<Rightarrow> user option \<Rightarrow> timestamp \<Rightarrow> timestamp
     \<Rightarrow> Document option \<times> storage" where
  "create_doc s ttl content cat uid now1 now2 =
     (let doc_id = get_next_id s ''doc'';
          fname = str_int doc_id @ ''.txt'';
          s1 = write_file s DocsDir fname content;
          metadata = load_metadata s1;
          doc_meta = \<lparr>item_id = doc_id, title = ttl, filename = fname, category = Some cat,
                      user_id = uid, attachments = Some [], view_count = None,
                      created_at = now1, updated_at = Some now2, updated_by = None\<rparr>;
          s2 = save_metadata s1 (metadata\<lparr>md_docs := md_docs metadata @ [doc_meta]\<rparr>)
      in (get_doc s2 doc_id, s2))"

fun get_all_docs_loop ::
  "storage \<Rightarrow> (string \<Rightarrow> string) \<Rightarrow> string option \<Rightarrow> string option \<Rightarrow> item_meta list
     \<Rightarrow> Document list" where
  "get_all_docs_loop s lower cat q [] = []"
| "get_all_docs_loop s lower cat q (m # ms) =
     (if category_skips cat m then get_all_docs_loop s lower cat q ms
      else case read_text s DocsDir (filename m) of
             None \<Rightarrow> get_all_docs_loop s lower cat q ms
           | Some content \<Rightarrow>
               if search_skips lower q m content then get_all_docs_loop s lower cat q ms
               else make_doc m content # get_all_docs_loop s lower cat q ms)"

definition get_all_docs ::
  "storage \<Rightarrow> (string \<Rightarrow> string) \<Rightarrow> string option \<Rightarrow> string option \<Rightarrow> Document list" where
  "get_all_docs s lower cat q =
     sort_reverse d_updated_at
       (get_all_docs_loop s lower cat q (md_docs (load_metadata s)))"

definition update_doc ::
  "storage \<Rightarrow> int \<Rightarrow> string option \<Rightarrow> string option \<Rightarrow> string option \<Rightarrow> timestamp
     \<Rightarrow> bool \<times> storage" where
  "update_doc s doc_id ttl content cat now =
     (let metadata = load_metadata s in
      case find_item doc_id (md_docs metadata) of
        None \<Rightarrow> (False, s)
      | Some (pre, m, post) \<Rightarrow>
          let m1 = (case ttl of None \<Rightarrow> m | Some t \<Rightarrow> m\<lparr>title := t\<rparr>);
              m2 = (case cat of None \<Rightarrow> m1 | Some c \<Rightarrow> m1\<lparr>category := Some c\<rparr>);
              s1 = (case content of None \<Rightarrow> s | Some c \<Rightarrow> write_file s DocsDir (filename m2) c);
              updated = (ttl \<noteq> None \<or> cat \<noteq> None \<or> content \<noteq> None)
          in if updated then
               let m3 = m2\<lparr>updated_at := Some now\<rparr>
               in (True, save_metadata s1 (metadata\<lparr>md_docs := pre @ m3 # post\<rparr>))
             else (False, s1))"

definition delete_doc :: "storage \<Rightarrow> int \<Rightarrow> bool outcome \<times> storage" where
  "delete_doc s doc_id =
     (let metadata = load_metadata s in
      case find_item doc_id (md_docs metadata) of
        None \<Rightarrow> (Returned False, s)
      | Some (pre, m, post) \<Rightarrow>
          (case remove_if_exists s DocsDir (filename m) of
             Inl e \<Rightarrow> (Raised e, s)
           | Inr s1 \<Rightarrow>
               (case remove_attachments s1 DocsUploadsDir
                       (get_attachments m) of
                  (Some e, s2) \<Rightarrow> (Raised e, s2)
                | (None, s2) \<Rightarrow>
                    (Returned True,
                     save_metadata s2 (metadata\<lparr>md_docs := remove1 m (md_docs metadata)\<rparr>)))))"

text \<open>\<open>add_doc_attachment\<close> returns a boolean alone, and calls neither
  \<open>check_storage_available\<close> nor \<open>get_total_storage_size\<close>.\<close>

definition add_doc_attachment ::
  "storage \<Rightarrow> int \<Rightarrow> uploaded_file \<Rightarrow> (string \<Rightarrow> string) \<Rightarrow> string \<Rightarrow> timestamp \<Rightarrow> timestamp
     \<Rightarrow> bool \<times> storage" where
  "add_doc_attachment s doc_id file secure_filename hex8 now1 now2 =
     (let metadata = load_metadata s in
      case find_item doc_id (md_docs metadata) of
        None \<Rightarrow> (False, s)
      | Some (pre, m, post) \<Rightarrow>
          let original = secure_filename (upload_filename file) in
          if original = [] then (False, s)
          else
            let file_ext = splitext_ext original;
                unique_filename = str_int doc_id @ ''_'' @ hex8 @ file_ext;
                s1 = write_file s DocsUploadsDir unique_filename (upload_data file);
                m1 = append_attachment m
                       \<lparr>att_filename = unique_filename, original_filename = original,
                        uploaded_at = now1\<rparr>;
                m2 = m1\<lparr>updated_at := Some now2\<rparr>
            in (True, save_metadata s1 (metadata\<lparr>md_docs := pre @ m2 # post\<rparr>)))"

text \<open>\<open>delete_doc_attachment\<close>: \<open>os.remove\<close> stands outside any \<open>try\<close>, so its exception
  leaves the method before the index is changed.\<close>

definition delete_doc_attachment ::
  "storage \<Rightarrow> int \<Rightarrow> string \<Rightarrow> timestamp \<Rightarrow> bool outcome \<times> storage" where
  "delete_doc_attachment s doc_id attachment_filename now =
     (let metadata = load_metadata s in
      case drop_attachment doc_id attachment_filename now (md_docs metadata) of
        None \<Rightarrow> (Returned False, s)
      | Some ds \<Rightarrow>
          (case remove_if_exists s DocsUploadsDir attachment_filename of
             Inl e \<Rightarrow> (Raised e, s)
           | Inr s1 \<Rightarrow> (Returned True, save_metadata s1 (metadata\<lparr>md_docs := ds\<rparr>))))"

definition get_doc_categories :: "storage \<Rightarrow> string list" where
  "get_doc_categories s =
     sort (remdups (map get_category
                        (md_docs (load_metadata s))))"

subsection \<open>Sample stores\<close>

definition s_garbage :: storage where
  "s_garbage = \<lparr>metadata_file = Garbage, notes_dir = [(''1.txt'', ''lost'')], docs_dir = [],
     uploads_dir = [], notes_uploads_dir = [], docs_uploads_dir = [], remove_fails = []\<rparr>"

definition note1 :: item_meta where
  "note1 = \<lparr>item_id = 1, title = ''Meeting Notes'', filename = ''1.txt'', category = Some ''work'',
     user_id = Some 7, attachments = Some [\<lparr>att_filename = ''1_0a1b2c3d.png'',
       original_filename = ''plan.png'', uploaded_at = 15\<rparr>], view_count = Some 3,
     created_at = 10, updated_at = Some 20, updated_by = None\<rparr>"

definition note2 :: item_meta where
  "note2 = \<lparr>item_id = 2, title = ''Shopping'', filename = ''2.txt'', category = Some ''personal'',
     user_id = None, attachments = Some [], view_count = Some 0,
     created_at = 30, updated_at = Some 30, updated_by = None\<rparr>"

definition doc1 :: item_meta where
  "doc1 = \<lparr>item_id = 1, title = ''Manual'', filename = ''1.txt'', category = Some ''work'',
     user_id = None, attachments = Some [\<lparr>att_filename = ''1_abcd1234.pdf'',
       original_filename = ''manual.pdf'', uploaded_at = 45\<rparr>], view_count = None,
     created_at = 40, updated_at = Some 45, updated_by = None\<rparr>"

definition s_sample :: storage where
  "s_sample = \<lparr>metadata_file = Stored \<lparr>md_notes = [note1, note2], md_docs = [doc1]\<rparr>,
     notes_dir = [(''1.txt'', ''Discuss Q1 roadmap''), (''2.txt'', ''Milk, eggs'')],
     docs_dir = [(''1.txt'', ''Read me'')],
     uploads_dir = [],
     notes_uploads_dir = [(''1_0a1b2c3d.png'', ''PNG'')],
     docs_uploads_dir = [(''1_abcd1234.pdf'', ''PDF'')],
     remove_fails = []\<rparr>"

definition s_empty :: storage where
  "s_empty = \<lparr>metadata_file = Stored empty_metadata, notes_dir = [], docs_dir = [],
     uploads_dir = [], notes_uploads_dir = [], docs_uploads_dir = [], remove_fails = []\<rparr>"

text \<open>A sequence of calls of \<open>create_note\<close> and \<open>create_doc\<close>, each with its arguments and
  its two readings of the clock; a run returns, call by call, the kind and the id of the
  entity the call returned.\<close>

datatype create_call =
  CreateNote string string string "user option" timestamp timestamp
| CreateDoc string string string "user option" timestamp timestamp

fun run_create :: "storage \<Rightarrow> create_call \<Rightarrow> (string \<times> int option) \<times> storage" where
  "run_create s (CreateNote ttl content cat uid ta tb) =
     (let (r, s') = create_note s ttl content cat uid ta tb in ((''note'', map_option n_id r), s'))"
| "run_create s (CreateDoc ttl content cat uid ta tb) =
     (let (r, s') = create_doc s ttl content cat uid ta tb in ((''doc'', map_option d_id r), s'))"

fun run_creates :: "storage \<Rightarrow> create_call list \<Rightarrow> (string \<times> int option) list \<times> storage" where
  "run_creates s [] = ([], s)"
| "run_creates s (c # cs) =
     (let (r, s1) = run_create s c; (rs, s2) = run_creates s1 cs in (r # rs, s2))"

definition ids_of :: "string \<Rightarrow> (string \<times> int option) list \<Rightarrow> int option list" where
  "ids_of kind rs = map snd (filter (\<lambda>r. fst r = kind) rs)"

fun is_note_call :: "create_call \<Rightarrow> bool" where
  "is_note_call (CreateNote ttl content cat uid ta tb) = True"
| "is_note_call (CreateDoc ttl content cat uid ta tb) = False"

subsection \<open>The listing as the specification words it\<close>

text \<open>
  What a listing selects, stated on its own for the comparison with \<open>get_all_notes\<close> and
  \<open>get_all_docs\<close>: the category of the entity equals the filter, or the filter is absent,
  empty or \<open>all\<close>; the query, lowered, is a substring of the lowered title or of the lowered
  content, or there is no query; and the content file exists. The selected entities stand
  in the order of the records in the index.
\<close>

definition category_matches :: "string option \<Rightarrow> item_meta \<Rightarrow> bool" where
  "category_matches cat m =
     (case cat of None \<Rightarrow> True | Some c \<Rightarrow> c = [] \<or> c = ''all'' \<or> get_category m = c)"

definition query_matches ::
  "(string \<Rightarrow> string) \<Rightarrow> string option \<Rightarrow> item_meta \<Rightarrow> string \<Rightarrow> bool" where
  "query_matches lower q m content =
     (case q of None \<Rightarrow> True
      | Some x \<Rightarrow> x = [] \<or> sublist (lower x) (lower (title m))
                  \<or> sublist (lower x) (lower content))"

definition selected_notes ::
  "storage \<Rightarrow> (string \<Rightarrow> string) \<Rightarrow> string option \<Rightarrow> string option \<Rightarrow> Note list" where
  "selected_notes s lower cat q =
     List.map_filter
       (\<lambda>m. case read_text s NotesDir (filename m) of
              None \<Rightarrow> None
            | Some content \<Rightarrow>
                if category_matches cat m \<and> query_matches lower q m content
                then Some (make_note m content) else None)
       (md_notes (load_metadata s))"

definition selected_docs ::
  "storage \<Rightarrow> (string \<Rightarrow> string) \<Rightarrow> string option \<Rightarrow> string option \<Rightarrow> Document list" where
  "selected_docs s lower cat q =
     List.map_filter
       (\<lambda>m. case read_text s DocsDir (filename m) of
              None \<Rightarrow> None
            | Some content \<Rightarrow>
                if category_matches cat m \<and> query_matches lower q m content
                then Some (make_doc m content) else None)
       (md_docs (load_metadata s))"

text \<open>The lowering of the ASCII letters, with which \<open>str.lower\<close> agrees on ASCII text, for
  the sample runs.\<close>

definition lower_char :: "char \<Rightarrow> char" where
  "lower_char c =
     (case map_of (zip ''ABCDEFGHIJKLMNOPQRSTUVWXYZ'' ''abcdefghijklmnopqrstuvwxyz'') c of
        None \<Rightarrow> c
      | Some l \<Rightarrow> l)"

definition ascii_lower :: "string \<Rightarrow> string" where
  "ascii_lower s = map lower_char s"

text \<open>A store ten bytes below the default quota, a file of twenty bytes to upload, and
  a store in which the two attachment files cannot be removed.\<close>

definition big_blob :: string where
  "big_blob = replicate (max_storage_default - 51) (CHR ''x'')"

definition s_full :: storage where
  "s_full = s_sample\<lparr>uploads_dir := [(''backup.bin'', big_blob)]\<rparr>"

definition report :: uploaded_file where
  "report = \<lparr>upload_filename = ''report.txt'', upload_data = ''twenty bytes of text''\<rparr>"

definition s_locked :: storage where
  "s_locked = s_sample\<lparr>remove_fails :=
     [(NotesUploadsDir, ''1_0a1b2c3d.png''), (DocsUploadsDir, ''1_abcd1234.pdf'')]\<rparr>"

section \<open>Properties\<close>

subsection \<open>Directories, the metadata file and the search for a record\<close>

lemma get_dir_put_dir: "get_dir d (put_dir d' fs s) = (if d = d' then fs else get_dir d s)"
  by (cases d; cases d') (simp_all add: get_dir_def put_dir_def)

lemma metadata_file_put_dir: "metadata_file (put_dir d fs s) = metadata_file s"
  by (cases d) (simp_all add: put_dir_def)

lemma remove_fails_put_dir: "remove_fails (put_dir d fs s) = remove_fails s"
  by (cases d) (simp_all add: put_dir_def)

lemma put_dir_get_dir: "put_dir d (get_dir d s) s = s"
  by (cases d) (simp_all add: put_dir_def get_dir_def)

lemma load_metadata_put_dir: "load_metadata (put_dir d fs s) = load_metadata s"
  by (simp add: load_metadata_def metadata_file_put_dir)

lemma load_metadata_write_file: "load_metadata (write_file s d name bytes) = load_metadata s"
  by (simp add: write_file_def load_metadata_put_dir)

lemma load_metadata_save: "load_metadata (save_metadata s m) = m"
  by (simp add: load_metadata_def save_metadata_def)

lemma get_dir_save: "get_dir d (save_metadata s m) = get_dir d s"
  by (cases d) (simp_all add: get_dir_def save_metadata_def)

lemma read_file_save: "read_file (save_metadata s m) d name = read_file s d name"
  by (simp add: read_file_def get_dir_save)

lemma read_file_write_file:
  "read_file (write_file s d name bytes) d' name' =
     (if d' = d \<and> name' = name then Some bytes else read_file s d' name')"
  by (simp add: read_file_def write_file_def get_dir_put_dir update_conv')

lemma read_text_save: "read_text (save_metadata s m) d name = read_text s d name"
  by (simp add: read_text_def read_file_save)

lemma read_text_write_file:
  "read_text (write_file s d name bytes) d' name' =
     (if d' = d \<and> name' = name then Some (universal_newlines bytes) else read_text s d' name')"
  by (simp add: read_text_def read_file_write_file)

lemma universal_newlines_id: "CHR 0x0D \<notin> set cs \<Longrightarrow> universal_newlines cs = cs"
  by (induction cs rule: universal_newlines.induct) auto

lemma find_item_None: "find_item i ms = None \<longleftrightarrow> i \<notin> item_id ` set ms"
  by (induction ms) (auto split: option.splits)

lemma find_item_Some:
  "find_item i ms = Some (pre, m, post) \<Longrightarrow>
     ms = pre @ m # post \<and> item_id m = i \<and> i \<notin> item_id ` set pre"
  by (induction ms arbitrary: pre) (auto split: if_splits option.splits)

lemma find_item_append:
  "item_id m = i \<Longrightarrow> i \<notin> item_id ` set pre \<Longrightarrow>
     find_item i (pre @ m # post) = Some (pre, m, post)"
  by (induction pre) auto

subsection \<open>Loading a missing or unparseable metadata file\<close>

text \<open>
  Claim C3. Whenever opening or parsing \<open>metadata.json\<close> raises (the file is missing or
  does not parse), \<open>_load_metadata\<close> returns the empty index instead of raising, and every
  read operation on such a store returns an empty result: \<open>get_note\<close> and \<open>get_doc\<close> find
  nothing, the listings and the category lists are empty, and the next id is 1.
\<close>

theorem load_metadata_recovers:
  assumes "read_json (metadata_file s) = Inl e"
  shows "load_metadata s = empty_metadata
       \<and> get_next_id s item_type = 1
       \<and> get_note s note_id = None \<and> get_all_notes s lower cat q = []
       \<and> get_note_categories s = []
       \<and> get_doc s doc_id = None \<and> get_all_docs s lower cat q = []
       \<and> get_doc_categories s = []"
proof -
  have l: "load_metadata s = empty_metadata"
    using assms by (simp add: load_metadata_def)
  show ?thesis
    by (simp add: l empty_metadata_def get_next_id_def metadata_get_def get_note_def
        get_all_notes_def get_note_categories_def get_doc_def get_all_docs_def
        get_doc_categories_def sort_reverse_def)
qed

theorem load_metadata_recovers_witness:
  "read_json (metadata_file s_garbage) = Inl JSONDecodeError
   \<and> load_metadata s_garbage = empty_metadata
   \<and> get_note s_garbage 1 = None
   \<and> get_all_notes s_garbage ascii_lower (Some ''all'') None = []
   \<and> get_all_docs s_garbage ascii_lower None (Some ''x'') = []"
proof -
  have h: "read_json (metadata_file s_garbage) = Inl JSONDecodeError"
    by (simp add: s_garbage_def)
  show ?thesis
    using h load_metadata_recovers [OF h] by simp
qed

subsection \<open>The sample store\<close>

lemma load_sample: "load_metadata s_sample = \<lparr>md_notes = [note1, note2], md_docs = [doc1]\<rparr>"
  by (simp add: load_metadata_def s_sample_def)

lemma dirs_save: "notes_dir (save_metadata s m) = notes_dir s" "docs_dir (save_metadata s m) = docs_dir s"
  "uploads_dir (save_metadata s m) = uploads_dir s" "notes_uploads_dir (save_metadata s m) = notes_uploads_dir s"
  "docs_uploads_dir (save_metadata s m) = docs_uploads_dir s" "remove_fails (save_metadata s m) = remove_fails s"
  "metadata_file (save_metadata s m) = Stored m"
  by (simp_all add: save_metadata_def)

subsection \<open>The view count\<close>

text \<open>
  Claim C8. \<open>increment_note_view_count\<close> returns whether a note has the id. If none has,
  the store is unchanged. If one has, the index written to the metadata file is the old one
  with the \<open>view_count\<close> of the first note with the id increased by exactly 1 (a missing
  count reads as 0): every other record and every other field of that record is as
  before, so no \<open>updated_at\<close> changes, the documents are untouched and so is every
  directory.
\<close>

theorem increment_note_view_count_effect:
  "\<exists>s'. increment_note_view_count s i = (i \<in> item_id ` set (md_notes (load_metadata s)), s')
     \<and> (i \<notin> item_id ` set (md_notes (load_metadata s)) \<longrightarrow> s' = s)
     \<and> (i \<in> item_id ` set (md_notes (load_metadata s)) \<longrightarrow>
          metadata_file s' = Stored (load_metadata s')
          \<and> (\<exists>pre m post. md_notes (load_metadata s) = pre @ m # post
                \<and> item_id m = i \<and> i \<notin> item_id ` set pre
                \<and> md_notes (load_metadata s') =
                    pre @ m\<lparr>view_count := Some (get_view_count m + 1)\<rparr> # post))
     \<and> map get_updated_at (md_notes (load_metadata s')) = map get_updated_at (md_notes (load_metadata s))
     \<and> map updated_at (md_notes (load_metadata s')) = map updated_at (md_notes (load_metadata s))
     \<and> md_docs (load_metadata s') = md_docs (load_metadata s)
     \<and> (\<forall>d. get_dir d s' = get_dir d s)"
proof (cases "find_item i (md_notes (load_metadata s))")
  case None
  then have "i \<notin> item_id ` set (md_notes (load_metadata s))"
    by (simp add: find_item_None)
  with None show ?thesis
    by (simp add: increment_note_view_count_def)
next
  case (Some r)
  obtain pre m post where r: "r = (pre, m, post)"
    by (cases r) auto
  from Some r have f: "md_notes (load_metadata s) = pre @ m # post" "item_id m = i"
      "i \<notin> item_id ` set pre"
    using find_item_Some by blast+
  have mem: "i \<in> item_id ` set (md_notes (load_metadata s))"
    using f by auto
  let ?s' = "save_metadata s ((load_metadata s)\<lparr>md_notes := pre @ m\<lparr>view_count := Some (get_view_count m + 1)\<rparr> # post\<rparr>)"
  have run: "increment_note_view_count s i = (True, ?s')"
    using Some r by (simp add: increment_note_view_count_def)
  have "\<exists>pre' m' post'. md_notes (load_metadata s) = pre' @ m' # post'
                \<and> item_id m' = i \<and> i \<notin> item_id ` set pre'
                \<and> md_notes (load_metadata ?s') =
                    pre' @ m'\<lparr>view_count := Some (get_view_count m' + 1)\<rparr> # post'"
    using f by (intro exI [of _ pre] exI [of _ m] exI [of _ post]) (simp add: load_metadata_save)
  then show ?thesis
    using run mem f
    by (intro exI [of _ ?s']) (simp add: load_metadata_save get_dir_save dirs_save get_updated_at_def split: option.splits)
qed

theorem increment_note_view_count_effect_witness:
  "increment_note_view_count s_sample 1 =
     (True, s_sample\<lparr>metadata_file := Stored \<lparr>md_notes = [note1\<lparr>view_count := Some 4\<rparr>, note2],
                                              md_docs = [doc1]\<rparr>\<rparr>)
   \<and> fst (increment_note_view_count s_sample 5) = False"
proof -
  have a: "increment_note_view_count s_sample 1 =
     (True, s_sample\<lparr>metadata_file := Stored \<lparr>md_notes = [note1\<lparr>view_count := Some 4\<rparr>, note2],
                                              md_docs = [doc1]\<rparr>\<rparr>)"
    by (simp add: increment_note_view_count_def load_sample note1_def note2_def
        get_view_count_def save_metadata_def)
  have "5 \<notin> item_id ` set (md_notes (load_metadata s_sample))"
    by (simp add: load_sample note1_def note2_def)
  with increment_note_view_count_effect [of s_sample 5]
  have "fst (increment_note_view_count s_sample 5) = False"
    by auto
  with a show ?thesis by simp
qed

subsection \<open>Updates\<close>

lemma update_note_no_fields: "update_note s i None None None uid now = (False, s)"
  by (simp add: update_note_def Let_def split: option.splits)

lemma update_doc_no_fields: "update_doc s i None None None now = (False, s)"
  by (simp add: update_doc_def Let_def split: option.splits)

lemma update_note_unknown:
  "i \<notin> item_id ` set (md_notes (load_metadata s)) \<Longrightarrow>
     update_note s i ttl content cat uid now = (False, s)"
  using find_item_None [of i "md_notes (load_metadata s)"] by (simp add: update_note_def)

lemma update_doc_unknown:
  "i \<notin> item_id ` set (md_docs (load_metadata s)) \<Longrightarrow>
     update_doc s i ttl content cat now = (False, s)"
  using find_item_None [of i "md_docs (load_metadata s)"] by (simp add: update_doc_def)

lemma find_item_mem:
  "i \<in> item_id ` set ms \<Longrightarrow> \<exists>pre m post. find_item i ms = Some (pre, m, post)"
  using find_item_None [of i ms] by (cases "find_item i ms") auto

lemma update_note_known:
  assumes "i \<in> item_id ` set (md_notes (load_metadata s))"
    and "ttl \<noteq> None \<or> content \<noteq> None \<or> cat \<noteq> None"
  shows "\<exists>s' pre m post m'.
           update_note s i ttl content cat uid now = (True, s')
           \<and> metadata_file s' = Stored (load_metadata s')
           \<and> md_notes (load_metadata s) = pre @ m # post
           \<and> item_id m = i \<and> i \<notin> item_id ` set pre
           \<and> md_notes (load_metadata s') = pre @ m' # post
           \<and> updated_at m' = Some now
           \<and> title m' = (case ttl of None \<Rightarrow> title m | Some t \<Rightarrow> t)
           \<and> category m' = (case cat of None \<Rightarrow> category m | Some c \<Rightarrow> Some c)
           \<and> updated_by m' = (case uid of None \<Rightarrow> updated_by m | Some u \<Rightarrow> Some u)
           \<and> item_id m' = i \<and> filename m' = filename m
           \<and> (case content of None \<Rightarrow> notes_dir s' = notes_dir s
               | Some c \<Rightarrow> read_file s' NotesDir (filename m) = Some c)"
proof -
  obtain pre m post where f: "find_item i (md_notes (load_metadata s)) = Some (pre, m, post)"
    using find_item_mem [OF assms(1)] by blast
  note p = find_item_Some [OF f]
  let ?m1 = "case ttl of None \<Rightarrow> m | Some t \<Rightarrow> m\<lparr>title := t\<rparr>"
  let ?m2 = "case cat of None \<Rightarrow> ?m1 | Some c \<Rightarrow> ?m1\<lparr>category := Some c\<rparr>"
  let ?m3 = "?m2\<lparr>updated_at := Some now\<rparr>"
  let ?m4 = "case uid of None \<Rightarrow> ?m3 | Some u \<Rightarrow> ?m3\<lparr>updated_by := Some u\<rparr>"
  let ?s1 = "case content of None \<Rightarrow> s | Some c \<Rightarrow> write_file s NotesDir (filename ?m2) c"
  let ?s' = "save_metadata ?s1 ((load_metadata s)\<lparr>md_notes := pre @ ?m4 # post\<rparr>)"
  have run: "update_note s i ttl content cat uid now = (True, ?s')"
    using f assms(2) by (auto simp add: update_note_def Let_def)
  have fn: "filename ?m2 = filename m"
    by (simp split: option.splits)
  have props: "updated_at ?m4 = Some now"
    "title ?m4 = (case ttl of None \<Rightarrow> title m | Some t \<Rightarrow> t)"
    "category ?m4 = (case cat of None \<Rightarrow> category m | Some c \<Rightarrow> Some c)"
    "updated_by ?m4 = (case uid of None \<Rightarrow> updated_by m | Some u \<Rightarrow> Some u)"
    "item_id ?m4 = i" "filename ?m4 = filename m"
    using p by (simp_all split: option.splits)
  have files: "case content of None \<Rightarrow> notes_dir ?s' = notes_dir s
               | Some c \<Rightarrow> read_file ?s' NotesDir (filename m) = Some c"
    by (simp add: dirs_save read_file_save read_file_write_file fn split: option.splits)
  have stored: "metadata_file ?s' = Stored (load_metadata ?s')"
    by (simp add: load_metadata_save dirs_save)
  have "md_notes (load_metadata ?s') = pre @ ?m4 # post"
    by (simp add: load_metadata_save)
  with run p props files stored show ?thesis
    by blast
qed

lemma update_doc_known:
  assumes "i \<in> item_id ` set (md_docs (load_metadata s))"
    and "ttl \<noteq> None \<or> content \<noteq> None \<or> cat \<noteq> None"
  shows "\<exists>s' pre m post m'.
           update_doc s i ttl content cat now = (True, s')
           \<and> metadata_file s' = Stored (load_metadata s')
           \<and> md_docs (load_metadata s) = pre @ m # post
           \<and> item_id m = i \<and> i \<notin> item_id ` set pre
           \<and> md_docs (load_metadata s') = pre @ m' # post
           \<and> updated_at m' = Some now
           \<and> title m' = (case ttl of None \<Rightarrow> title m | Some t \<Rightarrow> t)
           \<and> category m' = (case cat of None \<Rightarrow> category m | Some c \<Rightarrow> Some c)
           \<and> item_id m' = i \<and> filename m' = filename m
           \<and> (case content of None \<Rightarrow> docs_dir s' = docs_dir s
               | Some c \<Rightarrow> read_file s' DocsDir (filename m) = Some c)"
proof -
  obtain pre m post where f: "find_item i (md_docs (load_metadata s)) = Some (pre, m, post)"
    using find_item_mem [OF assms(1)] by blast
  note p = find_item_Some [OF f]
  let ?m1 = "case ttl of None \<Rightarrow> m | Some t \<Rightarrow> m\<lparr>title := t\<rparr>"
  let ?m2 = "case cat of None \<Rightarrow> ?m1 | Some c \<Rightarrow> ?m1\<lparr>category := Some c\<rparr>"
  let ?m3 = "?m2\<lparr>updated_at := Some now\<rparr>"
  let ?s1 = "case content of None \<Rightarrow> s | Some c \<Rightarrow> write_file s DocsDir (filename ?m2) c"
  let ?s' = "save_metadata ?s1 ((load_metadata s)\<lparr>md_docs := pre @ ?m3 # post\<rparr>)"
  have run: "update_doc s i ttl content cat now = (True, ?s')"
    using f assms(2) by (auto simp add: update_doc_def Let_def)
  have fn: "filename ?m2 = filename m"
    by (simp split: option.splits)
  have props: "updated_at ?m3 = Some now"
    "title ?m3 = (case ttl of None \<Rightarrow> title m | Some t \<Rightarrow> t)"
    "category ?m3 = (case cat of None \<Rightarrow> category m | Some c \<Rightarrow> Some c)"
    "item_id ?m3 = i" "filename ?m3 = filename m"
    using p by (simp_all split: option.splits)
  have files: "case content of None \<Rightarrow> docs_dir ?s' = docs_dir s
               | Some c \<Rightarrow> read_file ?s' DocsDir (filename m) = Some c"
    by (simp add: dirs_save read_file_save read_file_write_file fn split: option.splits)
  have stored: "metadata_file ?s' = Stored (load_metadata ?s')"
    by (simp add: load_metadata_save dirs_save)
  have "md_docs (load_metadata ?s') = pre @ ?m3 # post"
    by (simp add: load_metadata_save)
  with run p props files stored show ?thesis
    by blast
qed

text \<open>
  Claim C6. \<open>update_note\<close> and \<open>update_doc\<close> with title, content and category all absent
  return false and leave the store as it was (the metadata file with every \<open>updated_at\<close>
  included), whatever the editor; so do they, without raising, for an id that no record
  has. When a record has the id and at least one of the three is given, they return true,
  the first record with the id gets the given fields and \<open>updated_at = now\<close> (and, for a
  note, the editor when one is given), the content file is rewritten when content is given,
  and the new index is what the metadata file holds.
\<close>

theorem update_without_fields_or_record:
  "update_note s i None None None uid now = (False, s)
   \<and> update_doc s i None None None now = (False, s)
   \<and> (i \<notin> item_id ` set (md_notes (load_metadata s)) \<longrightarrow>
        update_note s i ttl content cat uid now = (False, s))
   \<and> (i \<notin> item_id ` set (md_docs (load_metadata s)) \<longrightarrow>
        update_doc s i ttl content cat now = (False, s))
   \<and> (i \<in> item_id ` set (md_notes (load_metadata s))
        \<and> (ttl \<noteq> None \<or> content \<noteq> None \<or> cat \<noteq> None) \<longrightarrow>
        (\<exists>s' pre m post m'.
           update_note s i ttl content cat uid now = (True, s')
           \<and> metadata_file s' = Stored (load_metadata s')
           \<and> md_notes (load_metadata s) = pre @ m # post
           \<and> item_id m = i \<and> i \<notin> item_id ` set pre
           \<and> md_notes (load_metadata s') = pre @ m' # post
           \<and> updated_at m' = Some now
           \<and> title m' = (case ttl of None \<Rightarrow> title m | Some t \<Rightarrow> t)
           \<and> category m' = (case cat of None \<Rightarrow> category m | Some c \<Rightarrow> Some c)
           \<and> updated_by m' = (case uid of None \<Rightarrow> updated_by m | Some u \<Rightarrow> Some u)
           \<and> item_id m' = i \<and> filename m' = filename m
           \<and> (case content of None \<Rightarrow> notes_dir s' = notes_dir s
               | Some c \<Rightarrow> read_file s' NotesDir (filename m) = Some c)))
   \<and> (i \<in> item_id ` set (md_docs (load_metadata s))
        \<and> (ttl \<noteq> None \<or> content \<noteq> None \<or> cat \<noteq> None) \<longrightarrow>
        (\<exists>s' pre m post m'.
           update_doc s i ttl content cat now = (True, s')
           \<and> metadata_file s' = Stored (load_metadata s')
           \<and> md_docs (load_metadata s) = pre @ m # post
           \<and> item_id m = i \<and> i \<notin> item_id ` set pre
           \<and> md_docs (load_metadata s') = pre @ m' # post
           \<and> updated_at m' = Some now
           \<and> title m' = (case ttl of None \<Rightarrow> title m | Some t \<Rightarrow> t)
           \<and> category m' = (case cat of None \<Rightarrow> category m | Some c \<Rightarrow> Some c)
           \<and> item_id m' = i \<and> filename m' = filename m
           \<and> (case content of None \<Rightarrow> docs_dir s' = docs_dir s
               | Some c \<Rightarrow> read_file s' DocsDir (filename m) = Some c)))"
  using update_note_no_fields update_doc_no_fields update_note_unknown update_doc_unknown
    update_note_known update_doc_known
  by (intro conjI impI) (simp_all only: , blast+)

theorem update_without_fields_or_record_witness:
  "update_note s_sample 2 None None None (Some 9) 99 = (False, s_sample)
   \<and> update_doc s_sample 1 None None None 99 = (False, s_sample)
   \<and> update_note s_sample 5 (Some ''x'') None None None 99 = (False, s_sample)
   \<and> fst (update_note s_sample 2 (Some ''Groceries'') None None (Some 9) 99) = True
   \<and> fst (update_doc s_sample 1 None (Some ''Read me twice'') None 99) = True
   \<and> map updated_at (md_notes (load_metadata (snd (update_note s_sample 2 (Some ''Groceries'') None None (Some 9) 99))))
       = [Some 20, Some 99]"
proof -
  note t = update_without_fields_or_record
  have a: "5 \<notin> item_id ` set (md_notes (load_metadata s_sample))"
    and b: "2 \<in> item_id ` set (md_notes (load_metadata s_sample))"
    and c: "1 \<in> item_id ` set (md_docs (load_metadata s_sample))"
    by (simp_all add: load_sample note1_def note2_def doc1_def)
  have 1: "update_note s_sample 2 None None None (Some 9) 99 = (False, s_sample)"
    using t [where s = s_sample and i = 2 and uid = "Some 9" and now = 99] by blast
  have 2: "update_doc s_sample 1 None None None 99 = (False, s_sample)"
    using t [where s = s_sample and i = 1 and now = 99] by blast
  have 3: "update_note s_sample 5 (Some ''x'') None None None 99 = (False, s_sample)"
    using a t [where s = s_sample and i = 5 and ttl = "Some ''x''" and content = None
        and cat = None and uid = None and now = 99] by blast
  have 4: "fst (update_note s_sample 2 (Some ''Groceries'') None None (Some 9) 99) = True"
    using b t [where s = s_sample and i = 2 and ttl = "Some ''Groceries''" and content = None
        and cat = None and uid = "Some 9" and now = 99] by force
  have 5: "fst (update_doc s_sample 1 None (Some ''Read me twice'') None 99) = True"
    using c t [where s = s_sample and i = 1 and ttl = None and content = "Some ''Read me twice''"
        and cat = None and now = 99] by force
  have 6: "map updated_at (md_notes (load_metadata (snd (update_note s_sample 2 (Some ''Groceries'') None None (Some 9) 99))))
       = [Some 20, Some 99]"
    by (simp add: update_note_def load_sample note1_def note2_def load_metadata_save)
  from 1 2 3 4 5 6 show ?thesis by blast
qed

subsection \<open>Notes and documents do not touch each other's records\<close>

lemma os_remove_Inr:
  "os_remove s d name = Inr s' \<Longrightarrow> s' = put_dir d (AList.delete name (get_dir d s)) s"
  by (simp add: os_remove_def split: if_splits)

lemma delete_absent: "map_of al k = None \<Longrightarrow> AList.delete k al = al"
  by (simp add: delete_id map_of_eq_None_iff)

lemma remove_if_exists_Inr:
  "remove_if_exists s d name = Inr s' \<Longrightarrow> s' = put_dir d (AList.delete name (get_dir d s)) s"
  by (auto simp add: remove_if_exists_def path_exists_def delete_absent put_dir_get_dir
      dest: os_remove_Inr split: if_splits)

lemma load_metadata_remove_if_exists:
  "remove_if_exists s d name = Inr s' \<Longrightarrow> load_metadata s' = load_metadata s"
  by (auto dest!: remove_if_exists_Inr simp add: load_metadata_put_dir)

lemma load_metadata_remove_attachments:
  "remove_attachments s d as = (r, s') \<Longrightarrow> load_metadata s' = load_metadata s"
  by (induction as arbitrary: s)
     (auto split: sum.splits dest: load_metadata_remove_if_exists)

lemma create_note_frame:
  "md_docs (load_metadata (snd (create_note s ttl content cat uid now1 now2))) = md_docs (load_metadata s)"
  by (simp add: create_note_def Let_def load_metadata_save load_metadata_write_file)

lemma create_doc_frame:
  "md_notes (load_metadata (snd (create_doc s ttl content cat uid now1 now2))) = md_notes (load_metadata s)"
  by (simp add: create_doc_def Let_def load_metadata_save load_metadata_write_file)

lemma increment_note_view_count_frame:
  "md_docs (load_metadata (snd (increment_note_view_count s i))) = md_docs (load_metadata s)"
  by (simp add: increment_note_view_count_def Let_def load_metadata_save split: option.splits)

lemma update_note_frame:
  "md_docs (load_metadata (snd (update_note s i ttl content cat uid now))) = md_docs (load_metadata s)"
  by (simp add: update_note_def Let_def load_metadata_save load_metadata_write_file
      split: option.splits)

lemma update_doc_frame:
  "md_notes (load_metadata (snd (update_doc s i ttl content cat now))) = md_notes (load_metadata s)"
  by (simp add: update_doc_def Let_def load_metadata_save load_metadata_write_file
      split: option.splits)

lemma delete_note_frame:
  "md_docs (load_metadata (snd (delete_note s i))) = md_docs (load_metadata s)"
  by (auto simp add: delete_note_def Let_def load_metadata_save
      split: option.splits sum.splits prod.splits
      dest!: load_metadata_remove_if_exists load_metadata_remove_attachments)

lemma delete_doc_frame:
  "md_notes (load_metadata (snd (delete_doc s i))) = md_notes (load_metadata s)"
  by (auto simp add: delete_doc_def Let_def load_metadata_save
      split: option.splits sum.splits prod.splits
      dest!: load_metadata_remove_if_exists load_metadata_remove_attachments)

lemma add_note_attachment_frame:
  "md_docs (load_metadata (snd (add_note_attachment s i file sec hex8 now1 now2))) = md_docs (load_metadata s)"
  by (simp add: add_note_attachment_def Let_def load_metadata_save load_metadata_write_file
      split: option.splits prod.splits)

lemma add_doc_attachment_frame:
  "md_notes (load_metadata (snd (add_doc_attachment s i file sec hex8 now1 now2))) = md_notes (load_metadata s)"
  by (simp add: add_doc_attachment_def Let_def load_metadata_save load_metadata_write_file
      split: option.splits prod.splits)

lemma delete_note_attachment_frame:
  "md_docs (load_metadata (snd (delete_note_attachment s i name now))) = md_docs (load_metadata s)"
  by (simp add: delete_note_attachment_def Let_def load_metadata_save
      split: option.splits sum.splits)

lemma delete_doc_attachment_frame:
  "md_notes (load_metadata (snd (delete_doc_attachment s i name now))) = md_notes (load_metadata s)"
  by (simp add: delete_doc_attachment_def Let_def load_metadata_save
      split: option.splits sum.splits)

text \<open>
  Claim C10. Every method for notes that writes (\<open>create_note\<close>,
  \<open>increment_note_view_count\<close>, \<open>update_note\<close>, \<open>delete_note\<close>, \<open>add_note_attachment\<close>,
  \<open>delete_note_attachment\<close>) leaves the \<open>docs\<close> list of the index as a later load returns
  it equal to the one loaded before, whatever the method returns or raises; every such
  method for documents leaves the \<open>notes\<close> list so. The reading methods (\<open>get_note\<close>,
  \<open>get_all_notes\<close>, \<open>get_note_categories\<close> and their counterparts for documents) write
  nothing at all: they are functions of the store that return no new store.
\<close>

theorem kind_isolation:
  "md_docs (load_metadata (snd (create_note s ttl content cat uid ta tb))) = md_docs (load_metadata s)
   \<and> md_docs (load_metadata (snd (increment_note_view_count s i))) = md_docs (load_metadata s)
   \<and> md_docs (load_metadata (snd (update_note s i ttl' content' cat' uid now))) = md_docs (load_metadata s)
   \<and> md_docs (load_metadata (snd (delete_note s i))) = md_docs (load_metadata s)
   \<and> md_docs (load_metadata (snd (add_note_attachment s i file sec hex ta tb))) = md_docs (load_metadata s)
   \<and> md_docs (load_metadata (snd (delete_note_attachment s i name now))) = md_docs (load_metadata s)
   \<and> md_notes (load_metadata (snd (create_doc s ttl content cat uid ta tb))) = md_notes (load_metadata s)
   \<and> md_notes (load_metadata (snd (update_doc s i ttl' content' cat' now))) = md_notes (load_metadata s)
   \<and> md_notes (load_metadata (snd (delete_doc s i))) = md_notes (load_metadata s)
   \<and> md_notes (load_metadata (snd (add_doc_attachment s i file sec hex ta tb))) = md_notes (load_metadata s)
   \<and> md_notes (load_metadata (snd (delete_doc_attachment s i name now))) = md_notes (load_metadata s)"
  by (simp only: create_note_frame increment_note_view_count_frame update_note_frame
      delete_note_frame add_note_attachment_frame delete_note_attachment_frame create_doc_frame
      update_doc_frame delete_doc_frame add_doc_attachment_frame delete_doc_attachment_frame
      simp_thms)

theorem kind_isolation_witness:
  "md_docs (load_metadata (snd (create_note s_sample ''T'' ''C'' ''work'' None 50 51))) = [doc1]
   \<and> md_docs (load_metadata (snd (delete_note s_sample 1))) = [doc1]
   \<and> md_docs (load_metadata (snd (update_note s_sample 1 (Some ''T'') None None None 60))) = [doc1]
   \<and> md_notes (load_metadata (snd (delete_doc s_sample 1))) = [note1, note2]
   \<and> md_notes (load_metadata (snd (update_doc s_sample 1 None (Some ''C'') None 60))) = [note1, note2]"
  using kind_isolation [where s = s_sample and ttl = "''T''" and content = "''C''"
      and cat = "''work''" and uid = None and ta = 50 and tb = 51 and i = 1
      and ttl' = "Some ''T''" and content' = None and cat' = None and now = 60]
    kind_isolation [where s = s_sample and i = 1 and ttl' = None and content' = "Some ''C''"
      and cat' = None and now = 60]
  by (simp add: load_sample)

subsection \<open>Deleting an entity\<close>

lemma put_dir_put_dir: "put_dir d fs (put_dir d fs' s) = put_dir d fs s"
  by (cases d) (simp_all add: put_dir_def)

lemma remove_if_exists_ok:
  "(d, name) \<notin> set (remove_fails s) \<Longrightarrow>
     remove_if_exists s d name = Inr (put_dir d (AList.delete name (get_dir d s)) s)"
  by (simp add: remove_if_exists_def path_exists_def os_remove_def delete_absent put_dir_get_dir)

lemma remove_attachments_ok:
  "\<forall>a\<in>set as. (d, att_filename a) \<notin> set (remove_fails s) \<Longrightarrow>
     remove_attachments s d as =
       (None, put_dir d (filter (\<lambda>(n, b). n \<notin> att_filename ` set as) (get_dir d s)) s)"
proof (induction as arbitrary: s)
  case Nil
  then show ?case by (simp add: put_dir_get_dir)
next
  case (Cons a as)
  let ?s1 = "put_dir d (AList.delete (att_filename a) (get_dir d s)) s"
  have 1: "remove_if_exists s d (att_filename a) = Inr ?s1"
    using Cons.prems by (simp add: remove_if_exists_ok)
  have 2: "\<forall>a\<in>set as. (d, att_filename a) \<notin> set (remove_fails ?s1)"
    using Cons.prems by (simp add: remove_fails_put_dir)
  have 3: "filter (\<lambda>(n, b). n \<notin> att_filename ` set as) (AList.delete (att_filename a) (get_dir d s))
         = filter (\<lambda>(n, b). n \<notin> att_filename ` set (a # as)) (get_dir d s)"
    by (auto simp add: AList.delete_eq intro: filter_cong)
  show ?case
    using Cons.IH [OF 2] 1 3 by (simp add: get_dir_put_dir put_dir_put_dir)
qed

lemma read_file_put_dir:
  "read_file (put_dir d fs s) d' name = (if d' = d then map_of fs name else read_file s d' name)"
  by (simp add: read_file_def get_dir_put_dir)

lemma map_of_filter_out: "\<not> P k \<Longrightarrow> map_of (filter (\<lambda>(n, b). P n) al) k = None"
  by (induction al) auto

lemma get_note_loop_unknown: "i \<notin> item_id ` set ms \<Longrightarrow> get_note_loop s i ms = None"
  by (induction ms) auto

lemma get_doc_loop_unknown: "i \<notin> item_id ` set ms \<Longrightarrow> get_doc_loop s i ms = None"
  by (induction ms) auto

lemma remove1_first: "m \<notin> set pre \<Longrightarrow> remove1 m (pre @ m # post) = pre @ post"
  by (simp add: remove1_append)

lemma delete_note_known:
  assumes ns: "md_notes (load_metadata s) = pre @ m # post"
    and dist: "distinct (map item_id (md_notes (load_metadata s)))"
    and f1: "(NotesDir, filename m) \<notin> set (remove_fails s)"
    and f2: "\<forall>a\<in>set (get_attachments m). (NotesUploadsDir, att_filename a) \<notin> set (remove_fails s)"
  shows "\<exists>s'. delete_note s (item_id m) = (Returned True, s')
           \<and> read_file s' NotesDir (filename m) = None
           \<and> (\<forall>a\<in>set (get_attachments m). read_file s' NotesUploadsDir (att_filename a) = None)
           \<and> md_notes (load_metadata s') = pre @ post
           \<and> get_note s' (item_id m) = None
           \<and> delete_note s' (item_id m) = (Returned False, s')"
proof -
  let ?i = "item_id m"
  have npre: "?i \<notin> item_id ` set pre" and npost: "?i \<notin> item_id ` set post"
    using dist ns by auto
  have f: "find_item ?i (md_notes (load_metadata s)) = Some (pre, m, post)"
    using ns npre by (simp add: find_item_append)
  let ?s1 = "put_dir NotesDir (AList.delete (filename m) (notes_dir s)) s"
  let ?s2 = "put_dir NotesUploadsDir
      (filter (\<lambda>(n, b). n \<notin> att_filename ` set (get_attachments m)) (notes_uploads_dir s)) ?s1"
  let ?s' = "save_metadata ?s2 ((load_metadata s)\<lparr>md_notes := pre @ post\<rparr>)"
  have r1: "remove_if_exists s NotesDir (filename m) = Inr ?s1"
    using f1 by (simp add: remove_if_exists_ok get_dir_def)
  have "\<forall>a\<in>set (get_attachments m). (NotesUploadsDir, att_filename a) \<notin> set (remove_fails ?s1)"
    using f2 by (simp add: remove_fails_put_dir)
  then have r2: "remove_attachments ?s1 NotesUploadsDir (get_attachments m) = (None, ?s2)"
    by (simp add: remove_attachments_ok get_dir_put_dir) (simp add: get_dir_def)
  have "m \<notin> set pre"
    using npre by auto
  then have rm: "remove1 m (md_notes (load_metadata s)) = pre @ post"
    by (simp add: ns remove1_first)
  have run: "delete_note s ?i = (Returned True, ?s')"
    using f r1 r2 rm by (simp add: delete_note_def Let_def)
  have gone: "read_file ?s' NotesDir (filename m) = None"
    by (simp add: read_file_save read_file_put_dir delete_conv')
  have atts: "\<forall>a\<in>set (get_attachments m). read_file ?s' NotesUploadsDir (att_filename a) = None"
    by (simp add: read_file_save read_file_put_dir map_of_filter_out)
  have l: "md_notes (load_metadata ?s') = pre @ post"
    by (simp add: load_metadata_save)
  have nin: "?i \<notin> item_id ` set (pre @ post)"
    using npre npost by auto
  have g: "get_note ?s' ?i = None"
    using nin by (simp add: get_note_def l get_note_loop_unknown)
  have "find_item ?i (md_notes (load_metadata ?s')) = None"
    using nin by (simp add: l find_item_None)
  then have again: "delete_note ?s' ?i = (Returned False, ?s')"
    by (simp add: delete_note_def Let_def)
  from run gone atts l g again show ?thesis
    by blast
qed

lemma delete_doc_known:
  assumes ds: "md_docs (load_metadata s) = pre @ m # post"
    and dist: "distinct (map item_id (md_docs (load_metadata s)))"
    and f1: "(DocsDir, filename m) \<notin> set (remove_fails s)"
    and f2: "\<forall>a\<in>set (get_attachments m). (DocsUploadsDir, att_filename a) \<notin> set (remove_fails s)"
  shows "\<exists>s'. delete_doc s (item_id m) = (Returned True, s')
           \<and> read_file s' DocsDir (filename m) = None
           \<and> (\<forall>a\<in>set (get_attachments m). read_file s' DocsUploadsDir (att_filename a) = None)
           \<and> md_docs (load_metadata s') = pre @ post
           \<and> get_doc s' (item_id m) = None
           \<and> delete_doc s' (item_id m) = (Returned False, s')"
proof -
  let ?i = "item_id m"
  have npre: "?i \<notin> item_id ` set pre" and npost: "?i \<notin> item_id ` set post"
    using dist ds by auto
  have f: "find_item ?i (md_docs (load_metadata s)) = Some (pre, m, post)"
    using ds npre by (simp add: find_item_append)
  let ?s1 = "put_dir DocsDir (AList.delete (filename m) (docs_dir s)) s"
  let ?s2 = "put_dir DocsUploadsDir
      (filter (\<lambda>(n, b). n \<notin> att_filename ` set (get_attachments m)) (docs_uploads_dir s)) ?s1"
  let ?s' = "save_metadata ?s2 ((load_metadata s)\<lparr>md_docs := pre @ post\<rparr>)"
  have r1: "remove_if_exists s DocsDir (filename m) = Inr ?s1"
    using f1 by (simp add: remove_if_exists_ok get_dir_def)
  have "\<forall>a\<in>set (get_attachments m). (DocsUploadsDir, att_filename a) \<notin> set (remove_fails ?s1)"
    using f2 by (simp add: remove_fails_put_dir)
  then have r2: "remove_attachments ?s1 DocsUploadsDir (get_attachments m) = (None, ?s2)"
    by (simp add: remove_attachments_ok get_dir_put_dir) (simp add: get_dir_def)
  have "m \<notin> set pre"
    using npre by auto
  then have rm: "remove1 m (md_docs (load_metadata s)) = pre @ post"
    by (simp add: ds remove1_first)
  have run: "delete_doc s ?i = (Returned True, ?s')"
    using f r1 r2 rm by (simp add: delete_doc_def Let_def)
  have gone: "read_file ?s' DocsDir (filename m) = None"
    by (simp add: read_file_save read_file_put_dir delete_conv')
  have atts: "\<forall>a\<in>set (get_attachments m). read_file ?s' DocsUploadsDir (att_filename a) = None"
    by (simp add: read_file_save read_file_put_dir map_of_filter_out)
  have l: "md_docs (load_metadata ?s') = pre @ post"
    by (simp add: load_metadata_save)
  have nin: "?i \<notin> item_id ` set (pre @ post)"
    using npre npost by auto
  have g: "get_doc ?s' ?i = None"
    using nin by (simp add: get_doc_def l get_doc_loop_unknown)
  have "find_item ?i (md_docs (load_metadata ?s')) = None"
    using nin by (simp add: l find_item_None)
  then have again: "delete_doc ?s' ?i = (Returned False, ?s')"
    by (simp add: delete_doc_def Let_def)
  from run gone atts l g again show ?thesis
    by blast
qed

lemma delete_note_unknown:
  "i \<notin> item_id ` set (md_notes (load_metadata s)) \<Longrightarrow> delete_note s i = (Returned False, s)"
  using find_item_None [of i "md_notes (load_metadata s)"] by (simp add: delete_note_def)

lemma delete_doc_unknown:
  "i \<notin> item_id ` set (md_docs (load_metadata s)) \<Longrightarrow> delete_doc s i = (Returned False, s)"
  using find_item_None [of i "md_docs (load_metadata s)"] by (simp add: delete_doc_def)

text \<open>
  Claim C9. Let a record of the kind have the id, the ids of the kind be distinct, and
  \<open>os.remove\<close> not fail on the content file and the attachment files of the record.
  Then \<open>delete_note\<close> (\<open>delete_doc\<close>) returns true; afterwards the content file and every
  attachment file of the record are gone, whether or not they were there before, the
  record is no longer in the index while the others keep their order, \<open>get_note\<close>
  (\<open>get_doc\<close>) of the id finds nothing, and a second delete of the id returns false and
  changes nothing. For an id that no record has, delete returns false and changes nothing.
\<close>

theorem delete_removes_entity:
  "(md_notes (load_metadata s) = pre @ m # post
      \<and> distinct (map item_id (md_notes (load_metadata s)))
      \<and> (NotesDir, filename m) \<notin> set (remove_fails s)
      \<and> (\<forall>a\<in>set (get_attachments m). (NotesUploadsDir, att_filename a) \<notin> set (remove_fails s))
    \<longrightarrow> (\<exists>s'. delete_note s (item_id m) = (Returned True, s')
           \<and> read_file s' NotesDir (filename m) = None
           \<and> (\<forall>a\<in>set (get_attachments m). read_file s' NotesUploadsDir (att_filename a) = None)
           \<and> md_notes (load_metadata s') = pre @ post
           \<and> get_note s' (item_id m) = None
           \<and> delete_note s' (item_id m) = (Returned False, s')))
   \<and> (md_docs (load_metadata s) = pre @ m # post
      \<and> distinct (map item_id (md_docs (load_metadata s)))
      \<and> (DocsDir, filename m) \<notin> set (remove_fails s)
      \<and> (\<forall>a\<in>set (get_attachments m). (DocsUploadsDir, att_filename a) \<notin> set (remove_fails s))
    \<longrightarrow> (\<exists>s'. delete_doc s (item_id m) = (Returned True, s')
           \<and> read_file s' DocsDir (filename m) = None
           \<and> (\<forall>a\<in>set (get_attachments m). read_file s' DocsUploadsDir (att_filename a) = None)
           \<and> md_docs (load_metadata s') = pre @ post
           \<and> get_doc s' (item_id m) = None
           \<and> delete_doc s' (item_id m) = (Returned False, s')))
   \<and> (i \<notin> item_id ` set (md_notes (load_metadata s)) \<longrightarrow> delete_note s i = (Returned False, s))
   \<and> (i \<notin> item_id ` set (md_docs (load_metadata s)) \<longrightarrow> delete_doc s i = (Returned False, s))"
proof (intro conjI impI)
  assume "md_notes (load_metadata s) = pre @ m # post
      \<and> distinct (map item_id (md_notes (load_metadata s)))
      \<and> (NotesDir, filename m) \<notin> set (remove_fails s)
      \<and> (\<forall>a\<in>set (get_attachments m). (NotesUploadsDir, att_filename a) \<notin> set (remove_fails s))"
  then show "\<exists>s'. delete_note s (item_id m) = (Returned True, s')
           \<and> read_file s' NotesDir (filename m) = None
           \<and> (\<forall>a\<in>set (get_attachments m). read_file s' NotesUploadsDir (att_filename a) = None)
           \<and> md_notes (load_metadata s') = pre @ post
           \<and> get_note s' (item_id m) = None
           \<and> delete_note s' (item_id m) = (Returned False, s')"
    using delete_note_known [of s pre m post] by blast
next
  assume "md_docs (load_metadata s) = pre @ m # post
      \<and> distinct (map item_id (md_docs (load_metadata s)))
      \<and> (DocsDir, filename m) \<notin> set (remove_fails s)
      \<and> (\<forall>a\<in>set (get_attachments m). (DocsUploadsDir, att_filename a) \<notin> set (remove_fails s))"
  then show "\<exists>s'. delete_doc s (item_id m) = (Returned True, s')
           \<and> read_file s' DocsDir (filename m) = None
           \<and> (\<forall>a\<in>set (get_attachments m). read_file s' DocsUploadsDir (att_filename a) = None)
           \<and> md_docs (load_metadata s') = pre @ post
           \<and> get_doc s' (item_id m) = None
           \<and> delete_doc s' (item_id m) = (Returned False, s')"
    using delete_doc_known [of s pre m post] by blast
qed (simp_all add: delete_note_unknown delete_doc_unknown)

lemma sample_remove_fails: "remove_fails s_sample = []"
  by (simp add: s_sample_def)

theorem delete_removes_entity_witness:
  "fst (delete_note s_sample 1) = Returned True
   \<and> get_note (snd (delete_note s_sample 1)) 1 = None
   \<and> fst (delete_note (snd (delete_note s_sample 1)) 1) = Returned False
   \<and> read_file (snd (delete_note s_sample 1)) NotesUploadsDir ''1_0a1b2c3d.png'' = None
   \<and> fst (delete_doc s_sample 1) = Returned True
   \<and> get_doc (snd (delete_doc s_sample 1)) 1 = None
   \<and> fst (delete_doc (snd (delete_doc s_sample 1)) 1) = Returned False"
proof -
  have n: "md_notes (load_metadata s_sample) = [] @ note1 # [note2]
      \<and> distinct (map item_id (md_notes (load_metadata s_sample)))
      \<and> (NotesDir, filename note1) \<notin> set (remove_fails s_sample)
      \<and> (\<forall>a\<in>set (get_attachments note1). (NotesUploadsDir, att_filename a) \<notin> set (remove_fails s_sample))"
    by (simp add: load_sample note1_def note2_def sample_remove_fails)
  have d: "md_docs (load_metadata s_sample) = [] @ doc1 # []
      \<and> distinct (map item_id (md_docs (load_metadata s_sample)))
      \<and> (DocsDir, filename doc1) \<notin> set (remove_fails s_sample)
      \<and> (\<forall>a\<in>set (get_attachments doc1). (DocsUploadsDir, att_filename a) \<notin> set (remove_fails s_sample))"
    by (simp add: load_sample doc1_def sample_remove_fails)
  have i1: "item_id note1 = 1" "get_attachments note1 = [\<lparr>att_filename = ''1_0a1b2c3d.png'',
       original_filename = ''plan.png'', uploaded_at = 15\<rparr>]" "item_id doc1 = 1"
    by (simp_all add: note1_def doc1_def get_attachments_def)
  have "\<exists>s'. delete_note s_sample (item_id note1) = (Returned True, s')
           \<and> read_file s' NotesDir (filename note1) = None
           \<and> (\<forall>a\<in>set (get_attachments note1). read_file s' NotesUploadsDir (att_filename a) = None)
           \<and> md_notes (load_metadata s') = [] @ [note2]
           \<and> get_note s' (item_id note1) = None
           \<and> delete_note s' (item_id note1) = (Returned False, s')"
    using n delete_removes_entity [of s_sample "[]" note1 "[note2]"] by blast
  then obtain s' where 1: "delete_note s_sample 1 = (Returned True, s')"
    "get_note s' 1 = None" "delete_note s' 1 = (Returned False, s')"
    "read_file s' NotesUploadsDir ''1_0a1b2c3d.png'' = None"
    unfolding i1 by auto
  have "\<exists>s'. delete_doc s_sample (item_id doc1) = (Returned True, s')
           \<and> read_file s' DocsDir (filename doc1) = None
           \<and> (\<forall>a\<in>set (get_attachments doc1). read_file s' DocsUploadsDir (att_filename a) = None)
           \<and> md_docs (load_metadata s') = [] @ []
           \<and> get_doc s' (item_id doc1) = None
           \<and> delete_doc s' (item_id doc1) = (Returned False, s')"
    using d delete_removes_entity [of s_sample "[]" doc1 "[]"] by blast
  then obtain s'' where 2: "delete_doc s_sample 1 = (Returned True, s'')"
    "get_doc s'' 1 = None" "delete_doc s'' 1 = (Returned False, s'')"
    unfolding i1 by auto
  from 1 2 show ?thesis by simp
qed

subsection \<open>Creating and reading back\<close>

lemma py_max_fold: "py_max x xs = fold max xs x"
  by (induction xs arbitrary: x) (auto simp add: max_def)

lemma py_max_Max: "py_max x xs = Max (set (x # xs))"
  by (simp only: py_max_fold Max.set_eq_fold)

lemma metadata_get_note: "metadata_get m ''notes'' = md_notes m"
  by (simp add: metadata_get_def)

lemma metadata_get_doc: "metadata_get m ''docs'' = md_docs m"
  by (simp add: metadata_get_def)

lemma next_id_Max:
  "(case ms of [] \<Rightarrow> 1 | x # xs \<Rightarrow> py_max (item_id x) (map item_id xs) + 1)
     = (if ms = [] then 1 else Max (item_id ` set ms) + 1)"
  by (cases ms) (simp_all add: py_max_Max)

lemma next_id_fresh:
  "(case ms of [] \<Rightarrow> 1 | x # xs \<Rightarrow> py_max (item_id x) (map item_id xs) + 1) \<notin> item_id ` set ms"
proof (cases "ms = []")
  case True
  then show ?thesis by simp
next
  case False
  have "Max (item_id ` set ms) + 1 \<notin> item_id ` set ms"
    using Max_ge [of "item_id ` set ms" "Max (item_id ` set ms) + 1"] by auto
  with False show ?thesis
    by (simp add: next_id_Max)
qed

lemma get_next_id_note_fresh: "get_next_id s ''note'' \<notin> item_id ` set (md_notes (load_metadata s))"
  using next_id_fresh [of "md_notes (load_metadata s)"]
  by (simp add: get_next_id_def metadata_get_note)

lemma get_next_id_doc_fresh: "get_next_id s ''doc'' \<notin> item_id ` set (md_docs (load_metadata s))"
  using next_id_fresh [of "md_docs (load_metadata s)"]
  by (simp add: get_next_id_def metadata_get_doc)

lemma get_note_loop_last:
  "i \<notin> item_id ` set ms \<Longrightarrow> get_note_loop s i (ms @ [m]) = get_note_loop s i [m]"
  by (induction ms) auto

lemma get_doc_loop_last:
  "i \<notin> item_id ` set ms \<Longrightarrow> get_doc_loop s i (ms @ [m]) = get_doc_loop s i [m]"
  by (induction ms) auto

lemma create_note_result:
  "create_note s ttl content cat uid ta tb =
     (Some \<lparr>n_id = get_next_id s ''note'', n_title = ttl,
            n_content = universal_newlines content, n_category = cat,
            n_user_id = uid, n_attachments = [], n_view_count = 0, n_created_at = ta,
            n_updated_at = tb, n_updated_by = None\<rparr>,
      save_metadata (write_file s NotesDir (str_int (get_next_id s ''note'') @ ''.txt'') content)
        ((load_metadata s)\<lparr>md_notes := md_notes (load_metadata s) @
           [\<lparr>item_id = get_next_id s ''note'', title = ttl,
             filename = str_int (get_next_id s ''note'') @ ''.txt'', category = Some cat,
             user_id = uid, attachments = Some [], view_count = Some 0,
             created_at = ta, updated_at = Some tb, updated_by = None\<rparr>]\<rparr>))"
  using get_next_id_note_fresh [of s]
  by (simp add: create_note_def Let_def get_note_def load_metadata_save load_metadata_write_file
      get_note_loop_last read_text_save read_text_write_file make_note_def get_category_def
      get_attachments_def get_view_count_def get_updated_at_def)

lemma create_doc_result:
  "create_doc s ttl content cat uid ta tb =
     (Some \<lparr>d_id = get_next_id s ''doc'', d_title = ttl,
            d_content = universal_newlines content, d_category = cat,
            d_user_id = uid, d_attachments = [], d_created_at = ta, d_updated_at = tb\<rparr>,
      save_metadata (write_file s DocsDir (str_int (get_next_id s ''doc'') @ ''.txt'') content)
        ((load_metadata s)\<lparr>md_docs := md_docs (load_metadata s) @
           [\<lparr>item_id = get_next_id s ''doc'', title = ttl,
             filename = str_int (get_next_id s ''doc'') @ ''.txt'', category = Some cat,
             user_id = uid, attachments = Some [], view_count = None,
             created_at = ta, updated_at = Some tb, updated_by = None\<rparr>]\<rparr>))"
  using get_next_id_doc_fresh [of s]
  by (simp add: create_doc_def Let_def get_doc_def load_metadata_save load_metadata_write_file
      get_doc_loop_last read_text_save read_text_write_file make_doc_def get_category_def
      get_attachments_def get_updated_at_def)

lemma get_note_after_create:
  "get_note (snd (create_note s ttl content cat uid ta tb)) (get_next_id s ''note'')
     = fst (create_note s ttl content cat uid ta tb)"
  using get_next_id_note_fresh [of s]
  by (simp add: create_note_def Let_def)

lemma get_doc_after_create:
  "get_doc (snd (create_doc s ttl content cat uid ta tb)) (get_next_id s ''doc'')
     = fst (create_doc s ttl content cat uid ta tb)"
  using get_next_id_doc_fresh [of s]
  by (simp add: create_doc_def Let_def)

text \<open>
  Claim C2, as the code has it. For every store, title, content, category and owner,
  \<open>create_note\<close> returns a note, and \<open>get_note\<close> of its id on the store left behind
  returns the same note. Its title, category and owner are the arguments. Its content is
  the argument as a read in text mode returns it, with every carriage return followed by a
  line feed and every other carriage return turned into a line feed: it equals the
  argument whenever the argument holds no carriage return. Its attachments are empty, its
  view count is 0, its \<open>created_at\<close> is the first reading of the clock and its
  \<open>updated_at\<close> the second, so the two are equal exactly when the clock did not advance
  between the two readings. The same holds for \<open>create_doc\<close> and \<open>get_doc\<close>, a document
  having no view count.
\<close>

theorem create_then_get:
  "(\<exists>n s'. create_note s ttl content cat uid ta tb = (Some n, s')
        \<and> get_note s' (n_id n) = Some n
        \<and> n_title n = ttl \<and> n_content n = universal_newlines content
        \<and> (CHR 0x0D \<notin> set content \<longrightarrow> n_content n = content)
        \<and> n_category n = cat \<and> n_user_id n = uid
        \<and> n_attachments n = [] \<and> n_view_count n = 0
        \<and> n_created_at n = ta \<and> n_updated_at n = tb)
   \<and> (\<exists>d s'. create_doc s ttl content cat uid ta tb = (Some d, s')
        \<and> get_doc s' (d_id d) = Some d
        \<and> d_title d = ttl \<and> d_content d = universal_newlines content
        \<and> (CHR 0x0D \<notin> set content \<longrightarrow> d_content d = content)
        \<and> d_category d = cat \<and> d_user_id d = uid
        \<and> d_attachments d = []
        \<and> d_created_at d = ta \<and> d_updated_at d = tb)"
proof
  let ?n = "\<lparr>n_id = get_next_id s ''note'', n_title = ttl,
            n_content = universal_newlines content, n_category = cat,
            n_user_id = uid, n_attachments = [], n_view_count = 0, n_created_at = ta,
            n_updated_at = tb, n_updated_by = None\<rparr>"
  have 1: "fst (create_note s ttl content cat uid ta tb) = Some ?n"
    by (simp add: create_note_result)
  have "get_note (snd (create_note s ttl content cat uid ta tb)) (n_id ?n) = Some ?n"
    using get_note_after_create [of s ttl content cat uid ta tb] 1 by simp
  with 1 show "\<exists>n s'. create_note s ttl content cat uid ta tb = (Some n, s')
        \<and> get_note s' (n_id n) = Some n
        \<and> n_title n = ttl \<and> n_content n = universal_newlines content
        \<and> (CHR 0x0D \<notin> set content \<longrightarrow> n_content n = content)
        \<and> n_category n = cat \<and> n_user_id n = uid
        \<and> n_attachments n = [] \<and> n_view_count n = 0
        \<and> n_created_at n = ta \<and> n_updated_at n = tb"
    by (intro exI [of _ ?n] exI [of _ "snd (create_note s ttl content cat uid ta tb)"])
       (simp add: prod_eq_iff universal_newlines_id)
next
  let ?d = "\<lparr>d_id = get_next_id s ''doc'', d_title = ttl,
            d_content = universal_newlines content, d_category = cat,
            d_user_id = uid, d_attachments = [], d_created_at = ta, d_updated_at = tb\<rparr>"
  have 1: "fst (create_doc s ttl content cat uid ta tb) = Some ?d"
    by (simp add: create_doc_result)
  have "get_doc (snd (create_doc s ttl content cat uid ta tb)) (d_id ?d) = Some ?d"
    using get_doc_after_create [of s ttl content cat uid ta tb] 1 by simp
  with 1 show "\<exists>d s'. create_doc s ttl content cat uid ta tb = (Some d, s')
        \<and> get_doc s' (d_id d) = Some d
        \<and> d_title d = ttl \<and> d_content d = universal_newlines content
        \<and> (CHR 0x0D \<notin> set content \<longrightarrow> d_content d = content)
        \<and> d_category d = cat \<and> d_user_id d = uid
        \<and> d_attachments d = []
        \<and> d_created_at d = ta \<and> d_updated_at d = tb"
    by (intro exI [of _ ?d] exI [of _ "snd (create_doc s ttl content cat uid ta tb)"])
       (simp add: prod_eq_iff universal_newlines_id)
qed

theorem create_then_get_witness:
  "map_option n_title (fst (create_note s_sample ''T'' ''C'' ''work'' None 5 5)) = Some ''T''
   \<and> map_option n_content (fst (create_note s_sample ''T'' ''C'' ''work'' None 5 5)) = Some ''C''
   \<and> map_option d_content (fst (create_doc s_sample ''T'' ''C'' ''work'' None 5 5)) = Some ''C''"
proof -
  have "CHR 0x0D \<notin> set ''C''"
    by simp
  then show ?thesis
    using create_then_get [of s_sample "''T''" "''C''" "''work''" None 5 5]
    by force
qed

text \<open>
  The claim as the specification states it asks for a content equal to the input and for
  \<open>created_at == updated_at\<close>. A content of two lines separated by a carriage return and a
  line feed is read back with the line feed alone; and the two timestamps are two readings
  of the clock, so that, when the clock advances between them, the note returned has two
  different timestamps.
\<close>

theorem create_round_trip_differs:
  "fst (create_note s_empty ''Meeting Notes'' [CHR ''a'', CHR 0x0D, CHR 0x0A, CHR ''b''] ''work''
          None 100 101)
     = Some \<lparr>n_id = 1, n_title = ''Meeting Notes'', n_content = [CHR ''a'', CHR 0x0A, CHR ''b''],
             n_category = ''work'', n_user_id = None, n_attachments = [], n_view_count = 0,
             n_created_at = 100, n_updated_at = 101, n_updated_by = None\<rparr>
   \<and> n_content (the (fst (create_note s_empty ''Meeting Notes''
          [CHR ''a'', CHR 0x0D, CHR 0x0A, CHR ''b''] ''work'' None 100 101)))
     \<noteq> [CHR ''a'', CHR 0x0D, CHR 0x0A, CHR ''b'']
   \<and> n_created_at (the (fst (create_note s_empty ''Meeting Notes''
          [CHR ''a'', CHR 0x0D, CHR 0x0A, CHR ''b''] ''work'' None 100 101)))
     \<noteq> n_updated_at (the (fst (create_note s_empty ''Meeting Notes''
          [CHR ''a'', CHR 0x0D, CHR 0x0A, CHR ''b''] ''work'' None 100 101)))"
  by (simp add: create_note_result get_next_id_def metadata_get_def load_metadata_def
      s_empty_def empty_metadata_def)

subsection \<open>The allocation of ids\<close>

lemma Max_first_ids: "Max (int ` {1..<Suc (Suc a)}) = int (Suc a)"
proof (rule Max_eqI)
  show "int (Suc a) \<in> int ` {1..<Suc (Suc a)}"
    by (rule imageI) simp
qed auto

lemma next_id_range:
  assumes "map item_id ms = map int [1..<Suc a]"
  shows "(case ms of [] \<Rightarrow> 1 | x # xs \<Rightarrow> py_max (item_id x) (map item_id xs) + 1) = int (Suc a)"
proof (cases a)
  case 0
  with assms show ?thesis by simp
next
  case (Suc b)
  have "item_id ` set ms = set (map item_id ms)"
    by simp
  also have "\<dots> = int ` {1..<Suc (Suc b)}"
    using assms Suc by (simp only: set_map set_upt)
  finally have "Max (item_id ` set ms) = int (Suc b)"
    by (simp only: Max_first_ids)
  moreover have "ms \<noteq> []"
    using assms Suc by auto
  ultimately show ?thesis
    using Suc by (simp add: next_id_Max)
qed

lemma get_next_id_note_range:
  "map item_id (md_notes (load_metadata s)) = map int [1..<Suc a] \<Longrightarrow>
     get_next_id s ''note'' = int (Suc a)"
  using next_id_range [of "md_notes (load_metadata s)" a]
  by (simp add: get_next_id_def metadata_get_note)

lemma get_next_id_doc_range:
  "map item_id (md_docs (load_metadata s)) = map int [1..<Suc a] \<Longrightarrow>
     get_next_id s ''doc'' = int (Suc a)"
  using next_id_range [of "md_docs (load_metadata s)" a]
  by (simp add: get_next_id_def metadata_get_doc)

lemma fst_run_creates_Cons:
  "fst (run_creates s (c # cs)) = fst (run_create s c) # fst (run_creates (snd (run_create s c)) cs)"
  by (simp add: case_prod_beta)

lemma run_creates_ids:
  "map item_id (md_notes (load_metadata s)) = map int [1..<Suc a] \<Longrightarrow>
   map item_id (md_docs (load_metadata s)) = map int [1..<Suc b] \<Longrightarrow>
   ids_of ''note'' (fst (run_creates s calls))
     = map (\<lambda>k. Some (int k)) [Suc a..<Suc (a + length (filter is_note_call calls))]
   \<and> ids_of ''doc'' (fst (run_creates s calls))
     = map (\<lambda>k. Some (int k)) [Suc b..<Suc (b + length (filter (\<lambda>c. \<not> is_note_call c) calls))]"
proof (induction calls arbitrary: s a b)
  case Nil
  then show ?case by (simp add: ids_of_def)
next
  case (Cons c calls)
  show ?case
  proof (cases c)
    case (CreateNote ttl content cat uid ta tb)
    let ?s1 = "snd (create_note s ttl content cat uid ta tb)"
    have i: "get_next_id s ''note'' = int (Suc a)"
      using Cons.prems(1) by (rule get_next_id_note_range)
    have n: "map item_id (md_notes (load_metadata ?s1)) = map int [1..<Suc (Suc a)]"
      using Cons.prems(1) by (simp add: create_note_result load_metadata_save i)
    have d: "map item_id (md_docs (load_metadata ?s1)) = map int [1..<Suc b]"
      using Cons.prems(2) by (simp add: create_note_result load_metadata_save)
    have r: "run_create s c = ((''note'', Some (int (Suc a))), ?s1)"
      by (simp add: CreateNote create_note_result i)
    have "[Suc a..<Suc (Suc (a + length (filter is_note_call calls)))]
        = Suc a # [Suc (Suc a)..<Suc (Suc (a + length (filter is_note_call calls)))]"
      by (rule upt_conv_Cons) simp
    with Cons.IH [OF n d] r show ?thesis
      by (simp add: ids_of_def fst_run_creates_Cons CreateNote del: upt_Suc run_creates.simps)
  next
    case (CreateDoc ttl content cat uid ta tb)
    let ?s1 = "snd (create_doc s ttl content cat uid ta tb)"
    have i: "get_next_id s ''doc'' = int (Suc b)"
      using Cons.prems(2) by (rule get_next_id_doc_range)
    have d: "map item_id (md_docs (load_metadata ?s1)) = map int [1..<Suc (Suc b)]"
      using Cons.prems(2) by (simp add: create_doc_result load_metadata_save i)
    have n: "map item_id (md_notes (load_metadata ?s1)) = map int [1..<Suc a]"
      using Cons.prems(1) by (simp add: create_doc_result load_metadata_save)
    have r: "run_create s c = ((''doc'', Some (int (Suc b))), ?s1)"
      by (simp add: CreateDoc create_doc_result i)
    have "[Suc b..<Suc (Suc (b + length (filter (\<lambda>c. \<not> is_note_call c) calls)))]
        = Suc b # [Suc (Suc b)..<Suc (Suc (b + length (filter (\<lambda>c. \<not> is_note_call c) calls)))]"
      by (rule upt_conv_Cons) simp
    with Cons.IH [OF n d] r show ?thesis
      by (simp add: ids_of_def fst_run_creates_Cons CreateDoc del: upt_Suc run_creates.simps)
  qed
qed

text \<open>
  Claim C4. \<open>get_next_id\<close> returns 1 when the list of the kind is empty and the greatest
  id of the list plus 1 otherwise. Hence, for every sequence of creations that starts
  from a store whose index is empty, the ids returned by the creations of notes are
  \<open>1, 2, 3, ...\<close> in the order of the calls, and so are those returned by the creations
  of documents, however the two kinds are interleaved.
\<close>

theorem ids_in_call_order:
  "get_next_id s ''note'' =
     (if md_notes (load_metadata s) = [] then 1
      else Max (item_id ` set (md_notes (load_metadata s))) + 1)
   \<and> get_next_id s ''doc'' =
     (if md_docs (load_metadata s) = [] then 1
      else Max (item_id ` set (md_docs (load_metadata s))) + 1)
   \<and> (load_metadata s = empty_metadata \<longrightarrow>
        ids_of ''note'' (fst (run_creates s calls))
          = map (\<lambda>k. Some (int k)) [1..<Suc (length (filter is_note_call calls))]
        \<and> ids_of ''doc'' (fst (run_creates s calls))
          = map (\<lambda>k. Some (int k)) [1..<Suc (length (filter (\<lambda>c. \<not> is_note_call c) calls))])"
proof (intro conjI impI)
  show "get_next_id s ''note'' =
     (if md_notes (load_metadata s) = [] then 1
      else Max (item_id ` set (md_notes (load_metadata s))) + 1)"
    by (simp add: get_next_id_def metadata_get_note next_id_Max)
  show "get_next_id s ''doc'' =
     (if md_docs (load_metadata s) = [] then 1
      else Max (item_id ` set (md_docs (load_metadata s))) + 1)"
    by (simp add: get_next_id_def metadata_get_doc next_id_Max)
next
  assume e: "load_metadata s = empty_metadata"
  have "map item_id (md_notes (load_metadata s)) = map int [1..<Suc 0]"
    "map item_id (md_docs (load_metadata s)) = map int [1..<Suc 0]"
    by (simp_all add: e empty_metadata_def)
  from run_creates_ids [OF this, of calls]
  show "ids_of ''note'' (fst (run_creates s calls))
          = map (\<lambda>k. Some (int k)) [1..<Suc (length (filter is_note_call calls))]"
    and "ids_of ''doc'' (fst (run_creates s calls))
          = map (\<lambda>k. Some (int k)) [1..<Suc (length (filter (\<lambda>c. \<not> is_note_call c) calls))]"
    by (simp_all only: One_nat_def add_0)
qed

theorem ids_in_call_order_witness:
  "load_metadata s_empty = empty_metadata
   \<and> get_next_id s_sample ''note'' = 3
   \<and> ids_of ''note'' (fst (run_creates s_empty
         [CreateNote ''Meeting Notes'' ''Discuss Q1 roadmap'' ''work'' None 1 1,
          CreateDoc ''Manual'' ''Read me'' ''general'' None 2 2,
          CreateNote ''Shopping'' ''Milk, eggs'' ''personal'' None 3 4])) = [Some 1, Some 2]
   \<and> ids_of ''doc'' (fst (run_creates s_empty
         [CreateNote ''Meeting Notes'' ''Discuss Q1 roadmap'' ''work'' None 1 1,
          CreateDoc ''Manual'' ''Read me'' ''general'' None 2 2,
          CreateNote ''Shopping'' ''Milk, eggs'' ''personal'' None 3 4])) = [Some 1]"
proof -
  have e: "load_metadata s_empty = empty_metadata"
    by (simp add: load_metadata_def s_empty_def)
  have m: "Max (item_id ` set (md_notes (load_metadata s_sample))) = 2"
    by (simp add: load_sample note1_def note2_def)
  have n: "md_notes (load_metadata s_sample) \<noteq> []"
    by (simp add: load_sample)
  show ?thesis
    using e m n ids_in_call_order [of s_sample]
      ids_in_call_order [of s_empty
        "[CreateNote ''Meeting Notes'' ''Discuss Q1 roadmap'' ''work'' None 1 1,
          CreateDoc ''Manual'' ''Read me'' ''general'' None 2 2,
          CreateNote ''Shopping'' ''Milk, eggs'' ''personal'' None 3 4]"]
    by (simp del: run_creates.simps)
qed

subsection \<open>Listings\<close>

lemma sample_dirs:
  "notes_dir s_sample = [(''1.txt'', ''Discuss Q1 roadmap''), (''2.txt'', ''Milk, eggs'')]"
  "docs_dir s_sample = [(''1.txt'', ''Read me'')]"
  "uploads_dir s_sample = []"
  "notes_uploads_dir s_sample = [(''1_0a1b2c3d.png'', ''PNG'')]"
  "docs_uploads_dir s_sample = [(''1_abcd1234.pdf'', ''PDF'')]"
  by (simp_all add: s_sample_def)

text \<open>A record without the key \<open>category\<close> is skipped by every filter that filters, while
  its entity has the category \<open>general\<close>: the two agree unless the filter is \<open>general\<close>.\<close>

lemma category_skips_iff:
  "cat \<noteq> Some ''general'' \<or> category m \<noteq> None \<Longrightarrow>
     category_skips cat m \<longleftrightarrow> \<not> category_matches cat m"
  by (auto simp add: category_skips_def category_matches_def get_category_def
      split: option.splits)

lemma search_skips_iff: "search_skips lower q m content \<longleftrightarrow> \<not> query_matches lower q m content"
  by (auto simp add: search_skips_def query_matches_def split: option.splits)

lemma get_all_notes_loop_selected:
  "cat \<noteq> Some ''general'' \<or> (\<forall>m\<in>set ms. category m \<noteq> None) \<Longrightarrow>
   get_all_notes_loop s lower cat q ms =
     List.map_filter
       (\<lambda>m. case read_text s NotesDir (filename m) of
              None \<Rightarrow> None
            | Some content \<Rightarrow>
                if category_matches cat m \<and> query_matches lower q m content
                then Some (make_note m content) else None) ms"
proof (induction ms)
  case Nil
  then show ?case by (simp add: map_filter_simps)
next
  case (Cons m ms)
  have c: "category_skips cat m \<longleftrightarrow> \<not> category_matches cat m"
    using Cons.prems by (intro category_skips_iff) auto
  have "cat \<noteq> Some ''general'' \<or> (\<forall>m\<in>set ms. category m \<noteq> None)"
    using Cons.prems by auto
  from Cons.IH [OF this] show ?case
    by (simp add: map_filter_simps c search_skips_iff split: option.splits)
qed

lemma get_all_docs_loop_selected:
  "cat \<noteq> Some ''general'' \<or> (\<forall>m\<in>set ms. category m \<noteq> None) \<Longrightarrow>
   get_all_docs_loop s lower cat q ms =
     List.map_filter
       (\<lambda>m. case read_text s DocsDir (filename m) of
              None \<Rightarrow> None
            | Some content \<Rightarrow>
                if category_matches cat m \<and> query_matches lower q m content
                then Some (make_doc m content) else None) ms"
proof (induction ms)
  case Nil
  then show ?case by (simp add: map_filter_simps)
next
  case (Cons m ms)
  have c: "category_skips cat m \<longleftrightarrow> \<not> category_matches cat m"
    using Cons.prems by (intro category_skips_iff) auto
  have "cat \<noteq> Some ''general'' \<or> (\<forall>m\<in>set ms. category m \<noteq> None)"
    using Cons.prems by auto
  from Cons.IH [OF this] show ?case
    by (simp add: map_filter_simps c search_skips_iff split: option.splits)
qed

text \<open>Two queries with one lowering, both empty or both not, skip the same records.\<close>

lemma search_skips_lowered:
  "lower q = lower q' \<Longrightarrow> (q = [] \<longleftrightarrow> q' = []) \<Longrightarrow>
     search_skips lower (Some q) m content = search_skips lower (Some q') m content"
  by (simp add: search_skips_def)

lemma get_all_notes_loop_lowered:
  "lower q = lower q' \<Longrightarrow> (q = [] \<longleftrightarrow> q' = []) \<Longrightarrow>
     get_all_notes_loop s lower cat (Some q) ms = get_all_notes_loop s lower cat (Some q') ms"
  by (induction ms) (simp_all add: search_skips_lowered [of lower q q'] split: option.splits)

lemma get_all_docs_loop_lowered:
  "lower q = lower q' \<Longrightarrow> (q = [] \<longleftrightarrow> q' = []) \<Longrightarrow>
     get_all_docs_loop s lower cat (Some q) ms = get_all_docs_loop s lower cat (Some q') ms"
  by (induction ms) (simp_all add: search_skips_lowered [of lower q q'] split: option.splits)

lemma sort_reverse_sorted: "sorted (rev (map key (sort_reverse key xs)))"
  by (simp add: sort_reverse_def rev_map)

lemma sort_reverse_mset: "mset (sort_reverse key xs) = mset xs"
  by (simp add: sort_reverse_def)

lemma sort_reverse_stable:
  "filter (\<lambda>x. key x = k) (sort_reverse key xs) = filter (\<lambda>x. key x = k) xs"
  by (simp add: sort_reverse_def rev_filter [symmetric] sort_key_stable)

lemma get_all_notes_selected:
  assumes "cat \<noteq> Some ''general'' \<or> (\<forall>m\<in>set (md_notes (load_metadata s)). category m \<noteq> None)"
  shows "get_all_notes s lower cat q = sort_reverse n_updated_at (selected_notes s lower cat q)"
  using get_all_notes_loop_selected [OF assms]
  by (simp add: get_all_notes_def selected_notes_def)

lemma get_all_docs_selected:
  assumes "cat \<noteq> Some ''general'' \<or> (\<forall>m\<in>set (md_docs (load_metadata s)). category m \<noteq> None)"
  shows "get_all_docs s lower cat q = sort_reverse d_updated_at (selected_docs s lower cat q)"
  using get_all_docs_loop_selected [OF assms]
  by (simp add: get_all_docs_def selected_docs_def)

text \<open>
  Claim C5, as the code has it. \<open>get_all_notes\<close> returns exactly the notes whose content
  file exists, whose category equals the filter string (an absent or empty filter, like
  the filter \<open>all\<close>, selects every category) and whose title or content contains the query
  case-insensitively, that is after \<open>str.lower\<close> of both (an absent or empty query
  selects everything): the result is a rearrangement of these, and the notes with one and
  the same \<open>updated_at\<close> stand in the order of their records in the index. For the filter
  \<open>general\<close> this is stated for the stores in which every record of the kind has a
  category, and for every other filter for every store. The result of every listing is in
  descending order of \<open>updated_at\<close>, and two queries that differ in case only (they have
  one lowering) give one and the same listing. The same holds for \<open>get_all_docs\<close>.
\<close>

theorem listing_selected_and_sorted:
  "(cat \<noteq> Some ''general'' \<or> (\<forall>m\<in>set (md_notes (load_metadata s)). category m \<noteq> None) \<longrightarrow>
      get_all_notes s lower cat q = sort_reverse n_updated_at (selected_notes s lower cat q)
      \<and> mset (get_all_notes s lower cat q) = mset (selected_notes s lower cat q)
      \<and> (\<forall>t. filter (\<lambda>n. n_updated_at n = t) (get_all_notes s lower cat q)
              = filter (\<lambda>n. n_updated_at n = t) (selected_notes s lower cat q)))
   \<and> (cat \<noteq> Some ''general'' \<or> (\<forall>m\<in>set (md_docs (load_metadata s)). category m \<noteq> None) \<longrightarrow>
      get_all_docs s lower cat q = sort_reverse d_updated_at (selected_docs s lower cat q)
      \<and> mset (get_all_docs s lower cat q) = mset (selected_docs s lower cat q)
      \<and> (\<forall>t. filter (\<lambda>d. d_updated_at d = t) (get_all_docs s lower cat q)
              = filter (\<lambda>d. d_updated_at d = t) (selected_docs s lower cat q)))
   \<and> sorted (rev (map n_updated_at (get_all_notes s lower cat q)))
   \<and> sorted (rev (map d_updated_at (get_all_docs s lower cat q)))
   \<and> (lower x = lower y \<and> (x = [] \<longleftrightarrow> y = []) \<longrightarrow>
        get_all_notes s lower cat (Some x) = get_all_notes s lower cat (Some y)
        \<and> get_all_docs s lower cat (Some x) = get_all_docs s lower cat (Some y))"
proof (intro conjI impI)
  assume h: "cat \<noteq> Some ''general'' \<or> (\<forall>m\<in>set (md_notes (load_metadata s)). category m \<noteq> None)"
  show "get_all_notes s lower cat q = sort_reverse n_updated_at (selected_notes s lower cat q)"
    using h by (rule get_all_notes_selected)
  show "mset (get_all_notes s lower cat q) = mset (selected_notes s lower cat q)"
    by (simp only: get_all_notes_selected [OF h] sort_reverse_mset)
  show "\<forall>t. filter (\<lambda>n. n_updated_at n = t) (get_all_notes s lower cat q)
              = filter (\<lambda>n. n_updated_at n = t) (selected_notes s lower cat q)"
    by (simp only: get_all_notes_selected [OF h] sort_reverse_stable simp_thms)
next
  assume h: "cat \<noteq> Some ''general'' \<or> (\<forall>m\<in>set (md_docs (load_metadata s)). category m \<noteq> None)"
  show "get_all_docs s lower cat q = sort_reverse d_updated_at (selected_docs s lower cat q)"
    using h by (rule get_all_docs_selected)
  show "mset (get_all_docs s lower cat q) = mset (selected_docs s lower cat q)"
    by (simp only: get_all_docs_selected [OF h] sort_reverse_mset)
  show "\<forall>t. filter (\<lambda>d. d_updated_at d = t) (get_all_docs s lower cat q)
              = filter (\<lambda>d. d_updated_at d = t) (selected_docs s lower cat q)"
    by (simp only: get_all_docs_selected [OF h] sort_reverse_stable simp_thms)
next
  show "sorted (rev (map n_updated_at (get_all_notes s lower cat q)))"
    by (simp only: get_all_notes_def sort_reverse_sorted)
  show "sorted (rev (map d_updated_at (get_all_docs s lower cat q)))"
    by (simp only: get_all_docs_def sort_reverse_sorted)
next
  assume l: "lower x = lower y \<and> (x = [] \<longleftrightarrow> y = [])"
  show "get_all_notes s lower cat (Some x) = get_all_notes s lower cat (Some y)"
    using l by (simp add: get_all_notes_def get_all_notes_loop_lowered [of lower x y])
  show "get_all_docs s lower cat (Some x) = get_all_docs s lower cat (Some y)"
    using l by (simp add: get_all_docs_def get_all_docs_loop_lowered [of lower x y])
qed

theorem listing_selected_and_sorted_witness:
  "map n_id (get_all_notes s_sample ascii_lower (Some ''all'') None) = [2, 1]
   \<and> map n_id (get_all_notes s_sample ascii_lower (Some ''work'') (Some ''ROAD'')) = [1]
   \<and> map n_id (get_all_notes s_sample ascii_lower (Some ''work'') (Some ''road'')) = [1]
   \<and> map d_id (get_all_docs s_sample ascii_lower (Some ''general'') (Some ''manual'')) = []
   \<and> map d_id (get_all_docs s_sample ascii_lower None (Some ''MANUAL'')) = [1]"
proof -
  note t = listing_selected_and_sorted [where s = s_sample and lower = ascii_lower]
  have hn: "\<forall>m\<in>set (md_notes (load_metadata s_sample)). category m \<noteq> None"
    and hd: "\<forall>m\<in>set (md_docs (load_metadata s_sample)). category m \<noteq> None"
    by (simp_all add: load_sample note1_def note2_def doc1_def)
  have l: "ascii_lower ''ROAD'' = ascii_lower ''road'' \<and> (''ROAD'' = [] \<longleftrightarrow> ''road'' = [])"
    by (simp add: ascii_lower_def lower_char_def)
  have a: "map n_id (sort_reverse n_updated_at
      (selected_notes s_sample ascii_lower (Some ''all'') None)) = [2, 1]"
    by (simp add: selected_notes_def load_sample note1_def note2_def category_matches_def
      query_matches_def read_text_def read_file_def get_dir_def sample_dirs make_note_def
      sort_reverse_def get_updated_at_def get_category_def map_filter_simps)
  have b: "map n_id (sort_reverse n_updated_at
      (selected_notes s_sample ascii_lower (Some ''work'') (Some ''ROAD''))) = [1]"
    by (simp add: selected_notes_def load_sample note1_def note2_def category_matches_def
      query_matches_def read_text_def read_file_def get_dir_def sample_dirs make_note_def
      sort_reverse_def get_updated_at_def get_category_def map_filter_simps ascii_lower_def
      lower_char_def sublist_code prefix_code)
  have c: "map d_id (sort_reverse d_updated_at
      (selected_docs s_sample ascii_lower (Some ''general'') (Some ''manual''))) = []"
    by (simp add: selected_docs_def load_sample doc1_def category_matches_def
      query_matches_def read_text_def read_file_def get_dir_def sample_dirs make_doc_def
      sort_reverse_def get_updated_at_def get_category_def map_filter_simps ascii_lower_def
      lower_char_def sublist_code prefix_code)
  have d: "map d_id (sort_reverse d_updated_at
      (selected_docs s_sample ascii_lower None (Some ''MANUAL''))) = [1]"
    by (simp add: selected_docs_def load_sample doc1_def category_matches_def
      query_matches_def read_text_def read_file_def get_dir_def sample_dirs make_doc_def
      sort_reverse_def get_updated_at_def get_category_def map_filter_simps ascii_lower_def
      lower_char_def sublist_code prefix_code)
  have 1: "get_all_notes s_sample ascii_lower (Some ''all'') None
      = sort_reverse n_updated_at (selected_notes s_sample ascii_lower (Some ''all'') None)"
    using hn t [where cat = "Some ''all''" and q = None] by blast
  have 2: "get_all_notes s_sample ascii_lower (Some ''work'') (Some ''ROAD'')
      = sort_reverse n_updated_at (selected_notes s_sample ascii_lower (Some ''work'') (Some ''ROAD''))"
    using hn t [where cat = "Some ''work''" and q = "Some ''ROAD''"] by blast
  have 3: "get_all_notes s_sample ascii_lower (Some ''work'') (Some ''ROAD'')
      = get_all_notes s_sample ascii_lower (Some ''work'') (Some ''road'')"
    using l t [where cat = "Some ''work''" and x = "''ROAD''" and y = "''road''"] by blast
  have 4: "get_all_docs s_sample ascii_lower (Some ''general'') (Some ''manual'')
      = sort_reverse d_updated_at
          (selected_docs s_sample ascii_lower (Some ''general'') (Some ''manual''))"
    using hd t [where cat = "Some ''general''" and q = "Some ''manual''"] by blast
  have 5: "get_all_docs s_sample ascii_lower None (Some ''MANUAL'')
      = sort_reverse d_updated_at (selected_docs s_sample ascii_lower None (Some ''MANUAL''))"
    using hd t [where cat = None and q = "Some ''MANUAL''"] by blast
  show ?thesis
    using a b c d by (simp only: 1 2 3 [symmetric] 4 5 simp_thms)
qed

text \<open>
  The claim as the specification states it makes \<open>all\<close> the only filter string that selects
  every category. The empty filter string does so as well: the listing of the sample store
  for the empty category holds both notes, whose categories are \<open>personal\<close> and \<open>work\<close>.
\<close>

theorem empty_category_lists_all:
  "map n_id (get_all_notes s_sample ascii_lower (Some '''') None) = [2, 1]
   \<and> map n_category (get_all_notes s_sample ascii_lower (Some '''') None) = [''personal'', ''work'']"
  by (simp add: get_all_notes_def load_sample note1_def note2_def category_skips_def
      search_skips_def read_text_def read_file_def get_dir_def sample_dirs make_note_def
      sort_reverse_def get_category_def get_updated_at_def)

subsection \<open>The quota on uploads\<close>

lemma length_big_blob: "length big_blob = max_storage_default - 51"
  by (simp only: big_blob_def length_replicate)

lemma load_full: "load_metadata s_full = \<lparr>md_notes = [note1, note2], md_docs = [doc1]\<rparr>"
  using load_sample by (simp add: load_metadata_def s_full_def)

lemma load_locked: "load_metadata s_locked = \<lparr>md_notes = [note1, note2], md_docs = [doc1]\<rparr>"
  using load_sample by (simp add: load_metadata_def s_locked_def)

lemma total_full: "get_total_storage_size s_full = max_storage_default - 10"
  by (simp add: get_total_storage_size_def dir_size_def s_full_def sample_dirs length_big_blob
      max_storage_default_def)

lemma add_note_attachment_over_quota:
  "get_total_storage_size s + length (upload_data file) > max_storage_default \<Longrightarrow>
     add_note_attachment s i file sec hex ta tb =
       ((False, NotEnoughStorage (get_total_storage_size s) max_storage_default), s)"
  by (simp add: add_note_attachment_def check_storage_available_def Let_def)

text \<open>
  Claim C1 holds for notes and fails for documents. On a store whose files take the quota
  less ten bytes, an upload of twenty bytes exceeds the quota. \<open>add_note_attachment\<close>
  rejects it with the figures of use and limit and leaves the store as it was.
  \<open>add_doc_attachment\<close> computes no usage: it returns true, writes the file under the
  uploads of documents and appends the attachment to the record of the document.
\<close>

theorem add_doc_attachment_skips_quota:
  "get_total_storage_size s_full + length (upload_data report) > max_storage_default
   \<and> add_note_attachment s_full 1 report (\<lambda>name. name) ''0a1b2c3d'' 70 71
       = ((False, NotEnoughStorage (get_total_storage_size s_full) max_storage_default), s_full)
   \<and> fst (add_doc_attachment s_full 1 report (\<lambda>name. name) ''0a1b2c3d'' 70 71) = True
   \<and> read_file (snd (add_doc_attachment s_full 1 report (\<lambda>name. name) ''0a1b2c3d'' 70 71))
         DocsUploadsDir ''1_0a1b2c3d.txt'' = Some ''twenty bytes of text''
   \<and> map (\<lambda>m. map att_filename (get_attachments m))
         (md_docs (load_metadata (snd (add_doc_attachment s_full 1 report (\<lambda>name. name) ''0a1b2c3d'' 70 71))))
       = [[''1_abcd1234.pdf'', ''1_0a1b2c3d.txt'']]"
proof -
  have over: "get_total_storage_size s_full + length (upload_data report) > max_storage_default"
    by (simp add: total_full report_def max_storage_default_def)
  have ext: "splitext_ext ''report.txt'' = ''.txt''"
    by (simp add: splitext_ext_def Let_def)
  have run: "add_doc_attachment s_full 1 report (\<lambda>name. name) ''0a1b2c3d'' 70 71 =
     (True, save_metadata (write_file s_full DocsUploadsDir ''1_0a1b2c3d.txt'' ''twenty bytes of text'')
        \<lparr>md_notes = [note1, note2],
         md_docs = [(append_attachment doc1 \<lparr>att_filename = ''1_0a1b2c3d.txt'',
            original_filename = ''report.txt'', uploaded_at = 70\<rparr>)\<lparr>updated_at := Some 71\<rparr>]\<rparr>)"
    by (simp add: add_doc_attachment_def load_full Let_def report_def ext str_int_def doc1_def)
  show ?thesis
    using over add_note_attachment_over_quota [OF over]
    by (simp add: run read_file_save read_file_write_file load_metadata_save
        append_attachment_def get_attachments_def doc1_def)
qed

subsection \<open>Removing an attachment\<close>

lemma delete_note_attachment_returns:
  "\<exists>b s'. delete_note_attachment s i name now = (Returned b, s')"
  by (auto simp add: delete_note_attachment_def Let_def split: option.splits)

lemma delete_note_attachment_found:
  "drop_attachment i name now (md_notes (load_metadata s)) = Some ns \<Longrightarrow>
     fst (delete_note_attachment s i name now) = Returned True
     \<and> md_notes (load_metadata (snd (delete_note_attachment s i name now))) = ns"
  by (simp add: delete_note_attachment_def Let_def load_metadata_save)

lemma delete_doc_attachment_raised:
  "drop_attachment i name now (md_docs (load_metadata s)) = Some ds \<Longrightarrow>
   path_exists s DocsUploadsDir name \<Longrightarrow> (DocsUploadsDir, name) \<in> set (remove_fails s) \<Longrightarrow>
     delete_doc_attachment s i name now = (Raised OSError, s)"
  by (simp add: delete_doc_attachment_def Let_def remove_if_exists_def os_remove_def
      path_exists_def)

lemma locked_fields:
  "notes_uploads_dir s_locked = [(''1_0a1b2c3d.png'', ''PNG'')]"
  "docs_uploads_dir s_locked = [(''1_abcd1234.pdf'', ''PDF'')]"
  "remove_fails s_locked = [(NotesUploadsDir, ''1_0a1b2c3d.png''), (DocsUploadsDir, ''1_abcd1234.pdf'')]"
  by (simp_all add: s_locked_def sample_dirs)

text \<open>
  Claim C7 holds for notes and fails for documents. In a store where \<open>os.remove\<close> raises
  on the two attachment files, \<open>delete_note_attachment\<close> returns true and the attachment
  is gone from the record of the note, while \<open>delete_doc_attachment\<close> raises \<open>OSError\<close>
  and the store, the attachment of the document included, is as before.
\<close>

theorem delete_doc_attachment_raises:
  "delete_doc_attachment s_locked 1 ''1_abcd1234.pdf'' 80 = (Raised OSError, s_locked)
   \<and> fst (delete_note_attachment s_locked 1 ''1_0a1b2c3d.png'' 80) = Returned True
   \<and> map get_attachments
         (md_notes (load_metadata (snd (delete_note_attachment s_locked 1 ''1_0a1b2c3d.png'' 80))))
       = [[], []]
   \<and> map get_attachments (md_docs (load_metadata
         (snd (delete_doc_attachment s_locked 1 ''1_abcd1234.pdf'' 80))))
       = [[\<lparr>att_filename = ''1_abcd1234.pdf'', original_filename = ''manual.pdf'', uploaded_at = 45\<rparr>]]"
proof -
  have d: "delete_doc_attachment s_locked 1 ''1_abcd1234.pdf'' 80 = (Raised OSError, s_locked)"
    by (simp add: delete_doc_attachment_def load_locked doc1_def get_attachments_def
        remove_if_exists_def path_exists_def os_remove_def get_dir_def locked_fields)
  have n: "delete_note_attachment s_locked 1 ''1_0a1b2c3d.png'' 80 =
      (Returned True, save_metadata s_locked
         \<lparr>md_notes = [note1\<lparr>attachments := Some [], updated_at := Some 80\<rparr>, note2],
          md_docs = [doc1]\<rparr>)"
    by (simp add: delete_note_attachment_def load_locked note1_def get_attachments_def
        remove_if_exists_def path_exists_def os_remove_def get_dir_def locked_fields)
  show ?thesis
    by (simp add: d n load_metadata_save load_locked get_attachments_def note1_def note2_def doc1_def)
qed

end
